theory Spec2Isabelle
  imports Complex_Main
begin

section \<open>Data model\<close>

text \<open>
  The program is \<^verbatim>\<open>src/app.py\<close>: a \<^verbatim>\<open>RealTimeProcessor\<close> holding the vehicle
  registry and the phone directories, and the request handlers around it.

  A Python float is a real number. The double arithmetic of the platform does not give
  the exact value of the haversine term of line 85, and the next line takes the square
  roots of that term and of one minus it, where \<^verbatim>\<open>math.sqrt\<close> raises
  \<^verbatim>\<open>ValueError\<close> on a negative argument (for nearly antipodal points the double is
  \<open>1.0000000000000002\<close>). The rounding error of that term is therefore a parameter of
  the model, of type \<open>rounding\<close>: every function that computes an ETA takes it, and
  every theorem holds for all rounding errors unless it names one. The other operations
  (\<^verbatim>\<open>math.sqrt\<close>, \<^verbatim>\<open>math.atan2\<close>, the products and the quotient) are taken exact.
  Every branch of the code (truthiness tests, comparisons, the raise, the clamp, the
  text written into a vehicle) is modelled as written.

  A JSON scalar in a coordinate position is a number or \<^verbatim>\<open>null\<close> (Python's
  \<^verbatim>\<open>None\<close>); Python's \<^verbatim>\<open>int\<close> and \<^verbatim>\<open>float\<close> compare by value, so one constructor
  holds both.
\<close>

datatype jval = JNull | JNum real

text \<open>A JSON object holding coordinates, with its keys in order: Python's \<^verbatim>\<open>dict\<close>.\<close>

type_synonym pydict = "(string \<times> jval) list"

text \<open>The value \<^verbatim>\<open>calculate_eta\<close> returns: the \<^verbatim>\<open>int\<close> 0 or 1, or a \<^verbatim>\<open>float\<close>.\<close>

datatype pynum = PyInt int | PyFloat real

fun num_val :: "pynum \<Rightarrow> real" where
  "num_val (PyInt i) = of_int i"
| "num_val (PyFloat x) = x"

record coordinate =
  latitude :: jval
  longitude :: jval

text \<open>
  A vehicle of \<^verbatim>\<open>processor.vehicles\<close>. The key \<^verbatim>\<open>'distance'\<close> is absent until
  \<^verbatim>\<open>calculate_eta\<close> writes it; \<^verbatim>\<open>'services'\<close> may be absent in the catalog.
\<close>

record vehicle =
  vid :: string
  name :: string
  vtype :: string
  location :: coordinate
  services :: "string list option"
  eta :: string
  available :: bool
  status :: string
  distance :: "real option"

text \<open>An entry of \<^verbatim>\<open>data/vehicles.json\<close>, before \<^verbatim>\<open>load_vehicles\<close> adds its fields.\<close>

record catalog_entry =
  c_id :: string
  c_name :: string
  c_type :: string
  c_location :: coordinate
  c_services :: "string list option"

record phone_record =
  lat :: real
  lng :: real
  address :: string

text \<open>The state of the \<^verbatim>\<open>RealTimeProcessor\<close> instance.\<close>

record processor =
  vehicles :: "vehicle list"
  vehicle_locations :: "string \<rightharpoonup> pydict"
  phone_to_location :: "string \<rightharpoonup> pydict"

text \<open>
  The error answers of the handlers. \<open>MathDomainError\<close> is Python's
  \<^verbatim>\<open>ValueError: math domain error\<close>, and the answer 500 of a handler in which it is
  raised.
\<close>

datatype error =
  LocationNotFound | VehicleNotFound | MissingParameters | InvalidData | MathDomainError

text \<open>
  The rounding error of the platform on the haversine term, as a function of the four
  coordinates in degrees: the double that line 85 computes is the exact term plus this
  error. \<open>no_error\<close> is exact arithmetic.
\<close>

type_synonym rounding = "real \<Rightarrow> real \<Rightarrow> real \<Rightarrow> real \<Rightarrow> real"

definition no_error :: rounding where
  "no_error = (\<lambda>lat1 lon1 lat2 lon2. 0)"

section \<open>Python primitives\<close>

text \<open>Truthiness of a coordinate value: \<^verbatim>\<open>None\<close>, \<^verbatim>\<open>0\<close> and \<^verbatim>\<open>0.0\<close> are falsy.\<close>

fun truthy :: "jval \<Rightarrow> bool" where
  "truthy JNull = False"
| "truthy (JNum x) = (x \<noteq> 0)"

text \<open>
  \<^verbatim>\<open>float(v)\<close>. On \<^verbatim>\<open>None\<close> Python raises; \<^verbatim>\<open>calculate_eta\<close> reaches it only
  behind the \<^verbatim>\<open>all([...])\<close> guard, where every value is a non-zero number.
\<close>

fun py_float :: "jval \<Rightarrow> real" where
  "py_float (JNum x) = x"
| "py_float JNull = 0"

text \<open>\<^verbatim>\<open>d.get(k1, d.get(k2))\<close>: the value under \<^verbatim>\<open>k1\<close> if the key is there, else the
  value under \<^verbatim>\<open>k2\<close>, else \<^verbatim>\<open>None\<close>.\<close>

definition get2 :: "pydict \<Rightarrow> string \<Rightarrow> string \<Rightarrow> jval" where
  "get2 d k1 k2 =
     (case map_of d k1 of
        Some v \<Rightarrow> v
      | None \<Rightarrow> (case map_of d k2 of Some v \<Rightarrow> v | None \<Rightarrow> JNull))"

text \<open>\<^verbatim>\<open>math.sqrt\<close>: a negative argument raises.\<close>

definition py_sqrt :: "real \<Rightarrow> error + real" where
  "py_sqrt x = (if x < 0 then Inl MathDomainError else Inr (sqrt x))"

definition radians :: "real \<Rightarrow> real" where
  "radians x = x * pi / 180"

text \<open>\<^verbatim>\<open>math.atan2(y, x)\<close>: the angle of the point \<open>(x, y)\<close>, in \<open>(-pi, pi]\<close>.\<close>

definition atan2 :: "real \<Rightarrow> real \<Rightarrow> real" where
  "atan2 y x =
     (if 0 < x then arctan (y / x)
      else if x < 0 then (if 0 \<le> y then arctan (y / x) + pi else arctan (y / x) - pi)
      else if 0 < y then pi / 2
      else if y < 0 then - (pi / 2)
      else 0)"

text \<open>\<^verbatim>\<open>round(x, 1)\<close>: to the nearest tenth, a tie to the even tenth.\<close>

definition round1 :: "real \<Rightarrow> real" where
  "round1 x =
     (let k = \<lfloor>x * 10\<rfloor>; f = x * 10 - of_int k
      in if f < 1 / 2 then of_int k / 10
         else if 1 / 2 < f then of_int (k + 1) / 10
         else if even k then of_int k / 10
         else of_int (k + 1) / 10)"

definition digit :: "nat \<Rightarrow> char" where
  "digit n = ''0123456789'' ! n"

fun str_nat :: "nat \<Rightarrow> string" where
  "str_nat n =
     (if n < 10 then [digit n]
      else str_nat (n div 10) @ [digit (n mod 10)])"

declare str_nat.simps [simp del]

definition str_int :: "int \<Rightarrow> string" where
  "str_int i = (if i < 0 then CHR ''-'' # str_nat (nat (- i)) else str_nat (nat i))"

text \<open>
  \<^verbatim>\<open>str\<close> of a float that \<^verbatim>\<open>round(_, 1)\<close> returned and that is below \<open>10^16\<close> in
  size (every ETA is: a great-circle distance is at most half the circumference): the
  integer part, a point, one digit.
\<close>

definition str_float1 :: "real \<Rightarrow> string" where
  "str_float1 x =
     (let t = \<lfloor>\<bar>x\<bar> * 10\<rfloor>
      in (if x < 0 then ''-'' else '''') @ str_nat (nat (t div 10)) @ ''.'' @ str_nat (nat (t mod 10)))"

fun py_str :: "pynum \<Rightarrow> string" where
  "py_str (PyInt i) = str_int i"
| "py_str (PyFloat x) = str_float1 x"

text \<open>\<^verbatim>\<open>next((i for i, x in enumerate(xs) if P(x)), None)\<close>: the first match.\<close>

fun find_index :: "('a \<Rightarrow> bool) \<Rightarrow> 'a list \<Rightarrow> nat option" where
  "find_index P [] = None"
| "find_index P (x # xs) =
     (if P x then Some 0 else map_option Suc (find_index P xs))"

text \<open>
  \<^verbatim>\<open>str.upper\<close>. An ASCII character becomes its capital; a character outside ASCII
  becomes what the Unicode tables of the Python runtime give for it (one character may
  become several), and these tables are the parameter \<open>uc\<close>.
\<close>

definition ascii :: "char \<Rightarrow> bool" where
  "ascii c \<longleftrightarrow> (of_char c :: nat) < 128"

definition upper_char :: "char \<Rightarrow> char" where
  "upper_char c =
     (case map_of (zip ''abcdefghijklmnopqrstuvwxyz'' ''ABCDEFGHIJKLMNOPQRSTUVWXYZ'') c of
        Some u \<Rightarrow> u
      | None \<Rightarrow> c)"

definition upper :: "(char \<Rightarrow> string) \<Rightarrow> string \<Rightarrow> string" where
  "upper uc s = concat (map (\<lambda>c. if ascii c then [upper_char c] else uc c) s)"

section \<open>RealTimeProcessor\<close>

text \<open>The seeded \<^verbatim>\<open>self.phone_locations\<close> of \<^verbatim>\<open>__init__\<close>.\<close>

definition phone_locations :: "(string \<times> phone_record) list" where
  "phone_locations =
     [(''9876543210'', \<lparr>lat = 13.3409, lng = 77.1025, address = ''Tumkur City Center''\<rparr>),
      (''9876543211'', \<lparr>lat = 13.3415, lng = 77.1030, address = ''Tumkur Bus Stand''\<rparr>),
      (''9876543212'', \<lparr>lat = 13.3420, lng = 77.1035, address = ''Tumkur Railway Station''\<rparr>),
      (''9876543213'', \<lparr>lat = 13.3425, lng = 77.1040, address = ''Tumkur Medical College''\<rparr>),
      (''9876543214'', \<lparr>lat = 13.3430, lng = 77.1045, address = ''Tumkur Police Station''\<rparr>)]"

text \<open>
  \<^verbatim>\<open>load_vehicles\<close>: every catalog entry gets \<^verbatim>\<open>eta = "N/A"\<close>,
  \<^verbatim>\<open>available = True\<close>, \<^verbatim>\<open>status = 'AVAILABLE'\<close>; a catalog that cannot be read
  (\<open>None\<close>) gives the empty registry.
\<close>

definition load_vehicle :: "catalog_entry \<Rightarrow> vehicle" where
  "load_vehicle c =
     \<lparr>vid = c_id c, name = c_name c, vtype = c_type c, location = c_location c,
      services = c_services c, eta = ''N/A'', available = True, status = ''AVAILABLE'',
      distance = None\<rparr>"

definition load_vehicles :: "catalog_entry list option \<Rightarrow> vehicle list" where
  "load_vehicles data = (case data of None \<Rightarrow> [] | Some cs \<Rightarrow> map load_vehicle cs)"

definition init :: "catalog_entry list option \<Rightarrow> processor" where
  "init data =
     \<lparr>vehicles = load_vehicles data, vehicle_locations = Map.empty,
      phone_to_location = Map.empty\<rparr>"

definition update_phone_location :: "processor \<Rightarrow> string \<Rightarrow> pydict \<Rightarrow> processor" where
  "update_phone_location s phone loc = s\<lparr>phone_to_location := (phone_to_location s)(phone \<mapsto> loc)\<rparr>"

definition get_phone_location :: "processor \<Rightarrow> string \<Rightarrow> pydict option" where
  "get_phone_location s phone = phone_to_location s phone"

text \<open>The result of \<^verbatim>\<open>get_location_from_phone\<close>: \<^verbatim>\<open>{'location': {'lat', 'lng'}, 'address'}\<close>.\<close>

record location_data =
  ld_location :: pydict
  ld_address :: string

definition get_location_from_phone :: "string \<Rightarrow> location_data option" where
  "get_location_from_phone phone_number =
     (case map_of phone_locations phone_number of
        Some l \<Rightarrow>
          Some \<lparr>ld_location = [(''lat'', JNum (lat l)), (''lng'', JNum (lng l))],
                ld_address = address l\<rparr>
      | None \<Rightarrow> None)"

text \<open>
  Lines 76 to 87 of \<^verbatim>\<open>calculate_eta\<close>: the haversine distance in kilometres.
  \<open>haversine_a\<close> is the exact value of the term of line 85; \<open>distance_km\<close> adds the
  rounding error of the platform to it and takes the two square roots, in the order of
  line 86.
\<close>

definition haversine_a :: "real \<Rightarrow> real \<Rightarrow> real \<Rightarrow> real \<Rightarrow> real" where
  "haversine_a lat1 lon1 lat2 lon2 =
     (let dlat = lat2 - lat1; dlon = lon2 - lon1
      in (sin (dlat / 2))\<^sup>2 + cos lat1 * cos lat2 * (sin (dlon / 2))\<^sup>2)"

definition distance_km :: "rounding \<Rightarrow> real \<Rightarrow> real \<Rightarrow> real \<Rightarrow> real \<Rightarrow> error + real" where
  "distance_km fp vehicle_lat vehicle_lng emergency_lat emergency_lng =
     (let R = 6371;
          lat1 = radians vehicle_lat; lon1 = radians vehicle_lng;
          lat2 = radians emergency_lat; lon2 = radians emergency_lng;
          a = haversine_a lat1 lon1 lat2 lon2
                + fp vehicle_lat vehicle_lng emergency_lat emergency_lng
      in case py_sqrt a of
           Inl e \<Rightarrow> Inl e
         | Inr sqrt_a \<Rightarrow>
             (case py_sqrt (1 - a) of
                Inl e \<Rightarrow> Inl e
              | Inr sqrt_1_a \<Rightarrow> Inr (R * (2 * atan2 sqrt_a sqrt_1_a))))"

text \<open>Lines 90 to 96: the time at 60 km/h in minutes, rounded, and the one-minute floor.\<close>

definition eta_minutes :: "real \<Rightarrow> pynum" where
  "eta_minutes dist_km =
     (let speed = 60;
          time_hours = dist_km / speed;
          eta_min = round1 (time_hours * 60)
      in if eta_min < 1 \<and> 0 < dist_km then PyInt 1 else PyFloat eta_min)"

text \<open>
  \<^verbatim>\<open>calculate_eta\<close>. It returns the ETA and, at lines 99 to 101, writes the rounded
  distance into the first vehicle of the registry whose stored coordinates equal the
  coordinates it was given; the registry is returned with that write. When a square
  root raises, the exception leaves the function before anything is written.
\<close>

definition calculate_eta :: "rounding \<Rightarrow> vehicle list \<Rightarrow> pydict \<Rightarrow> pydict
    \<Rightarrow> error + pynum \<times> vehicle list" where
  "calculate_eta fp vs vehicle_location emergency_location =
     (if vehicle_location = [] \<or> emergency_location = [] then Inr (PyInt 0, vs)
      else
        let vehicle_lat = get2 vehicle_location ''latitude'' ''lat'';
            vehicle_lng = get2 vehicle_location ''longitude'' ''lng'';
            emergency_lat = get2 emergency_location ''latitude'' ''lat'';
            emergency_lng = get2 emergency_location ''longitude'' ''lng''
        in if \<not> (truthy vehicle_lat \<and> truthy vehicle_lng \<and> truthy emergency_lat
                  \<and> truthy emergency_lng)
           then Inr (PyInt 0, vs)
           else
             (case distance_km fp (py_float vehicle_lat) (py_float vehicle_lng)
                     (py_float emergency_lat) (py_float emergency_lng) of
                Inl e \<Rightarrow> Inl e
              | Inr dist_km \<Rightarrow>
                  let eta_min = eta_minutes dist_km
                  in (case find_index (\<lambda>v. latitude (location v) = vehicle_lat
                                          \<and> longitude (location v) = vehicle_lng) vs of
                        None \<Rightarrow> Inr (eta_min, vs)
                      | Some i \<Rightarrow>
                          Inr (eta_min,
                               vs[i := (vs ! i)\<lparr>distance := Some (round1 dist_km)\<rparr>]))))"

section \<open>Request handlers\<close>

text \<open>
  \<^verbatim>\<open>{'latitude': vehicle['location']['latitude'], 'longitude': ...}\<close>, the dictionary
  every handler builds for a vehicle before it calls \<^verbatim>\<open>calculate_eta\<close>.
\<close>

definition vehicle_location :: "vehicle \<Rightarrow> pydict" where
  "vehicle_location v =
     [(''latitude'', latitude (location v)), (''longitude'', longitude (location v))]"

text \<open>\<^verbatim>\<open>f"{eta} mins" if eta > 0 else "N/A"\<close> (lines 141 and 167).\<close>

definition eta_text :: "pynum \<Rightarrow> string" where
  "eta_text e = (if 0 < num_val e then py_str e @ '' mins'' else ''N/A'')"

text \<open>
  \<^verbatim>\<open>get_vehicles\<close>: the query parameter \<^verbatim>\<open>type\<close> (\<open>None\<close> when absent, read as
  the empty string) is upper-cased; a non-empty one filters by type and availability.
\<close>

definition get_vehicles :: "(char \<Rightarrow> string) \<Rightarrow> processor \<Rightarrow> string option \<Rightarrow> vehicle list" where
  "get_vehicles uc s type_arg =
     (let service_type = upper uc (case type_arg of None \<Rightarrow> [] | Some t \<Rightarrow> t)
      in if service_type \<noteq> []
         then filter (\<lambda>vehicle. vtype vehicle = service_type \<and> available vehicle) (vehicles s)
         else vehicles s)"

text \<open>
  The loop of \<^verbatim>\<open>get_location\<close> over the vehicles at the given indices: for each,
  \<^verbatim>\<open>calculate_eta\<close> may write a distance into some vehicle, then the loop's vehicle
  gets its \<^verbatim>\<open>eta\<close>. An exception of \<^verbatim>\<open>calculate_eta\<close> ends the loop; the vehicles
  written before stay written.
\<close>

fun refresh_vehicles :: "rounding \<Rightarrow> pydict \<Rightarrow> nat list \<Rightarrow> vehicle list
    \<Rightarrow> error option \<times> vehicle list" where
  "refresh_vehicles fp emergency_location [] vs = (None, vs)"
| "refresh_vehicles fp emergency_location (i # is) vs =
     (case calculate_eta fp vs (vehicle_location (vs ! i)) emergency_location of
        Inl e \<Rightarrow> (Some e, vs)
      | Inr (e, vs') \<Rightarrow>
          refresh_vehicles fp emergency_location is (vs'[i := (vs' ! i)\<lparr>eta := eta_text e\<rparr>]))"

text \<open>
  \<^verbatim>\<open>get_location\<close>. The handler has no \<^verbatim>\<open>try\<close>: an exception in the loop is the
  answer 500, after the writes of the loop so far.
\<close>

definition get_location :: "rounding \<Rightarrow> processor \<Rightarrow> string
    \<Rightarrow> (error + location_data) \<times> processor" where
  "get_location fp s phone_number =
     (case get_location_from_phone phone_number of
        Some location_data \<Rightarrow>
          (case refresh_vehicles fp (ld_location location_data)
                  [0 ..< length (vehicles s)] (vehicles s) of
             (None, vs) \<Rightarrow> (Inr location_data, s\<lparr>vehicles := vs\<rparr>)
           | (Some e, vs) \<Rightarrow> (Inl e, s\<lparr>vehicles := vs\<rparr>))
      | None \<Rightarrow> (Inl LocationNotFound, s))"

text \<open>An entry of the \<^verbatim>\<open>etas\<close> list of \<^verbatim>\<open>calculate_etas\<close>.\<close>

record eta_summary =
  vehicleId :: string
  vehicleName :: string
  vehicleType :: string
  etaMinutes :: pynum
  es_status :: string
  es_available :: bool
  es_services :: "string list"

text \<open>
  The loop of \<^verbatim>\<open>calculate_etas\<close> over the vehicles at the given indices, with the
  list \<^verbatim>\<open>etas\<close> built so far. An exception of \<^verbatim>\<open>calculate_eta\<close> ends the loop.
\<close>

fun eta_entries :: "rounding \<Rightarrow> pydict \<Rightarrow> string list \<Rightarrow> nat list \<Rightarrow> vehicle list
    \<Rightarrow> eta_summary list \<Rightarrow> error option \<times> vehicle list \<times> eta_summary list" where
  "eta_entries fp emergency_location vehicle_ids [] vs etas = (None, vs, etas)"
| "eta_entries fp emergency_location vehicle_ids (i # is) vs etas =
     (if vid (vs ! i) \<in> set vehicle_ids
      then
        (case calculate_eta fp vs (vehicle_location (vs ! i)) emergency_location of
           Inl e \<Rightarrow> (Some e, vs, etas)
         | Inr (e, vs') \<Rightarrow>
             let vs'' = vs'[i := (vs' ! i)\<lparr>eta := eta_text e\<rparr>];
                 vehicle = vs'' ! i
             in eta_entries fp emergency_location vehicle_ids is vs''
                  (etas @ [\<lparr>vehicleId = vid vehicle, vehicleName = name vehicle,
                             vehicleType = vtype vehicle, etaMinutes = e,
                             es_status = status vehicle, es_available = available vehicle,
                             es_services =
                               (case services vehicle of None \<Rightarrow> [] | Some l \<Rightarrow> l)\<rparr>]))
      else eta_entries fp emergency_location vehicle_ids is vs etas)"

text \<open>
  \<^verbatim>\<open>calculate_etas\<close>: \<^verbatim>\<open>data.get('location')\<close> is \<open>None\<close> when absent,
  \<^verbatim>\<open>data.get('vehicleIds', [])\<close> is a list; a falsy one of the two is the 400 answer.
  The \<^verbatim>\<open>except\<close> clause turns an exception of the loop into the answer 500; the
  writes of the loop so far stay.
\<close>

definition calculate_etas :: "rounding \<Rightarrow> processor \<Rightarrow> pydict option \<Rightarrow> string list
    \<Rightarrow> (error + eta_summary list) \<times> processor" where
  "calculate_etas fp s emergency_location vehicle_ids =
     (case emergency_location of
        None \<Rightarrow> (Inl MissingParameters, s)
      | Some loc \<Rightarrow>
          if loc = [] \<or> vehicle_ids = [] then (Inl MissingParameters, s)
          else
            (case eta_entries fp loc vehicle_ids [0 ..< length (vehicles s)] (vehicles s) [] of
               (None, vs, etas) \<Rightarrow> (Inr etas, s\<lparr>vehicles := vs\<rparr>)
             | (Some e, vs, etas) \<Rightarrow> (Inl e, s\<lparr>vehicles := vs\<rparr>)))"

text \<open>\<^verbatim>\<open>update_location\<close>: a falsy phone or location is the 400 answer.\<close>

definition update_location :: "processor \<Rightarrow> string option \<Rightarrow> pydict option
    \<Rightarrow> (error + unit) \<times> processor" where
  "update_location s phone loc =
     (case (phone, loc) of
        (Some p, Some l) \<Rightarrow>
          if p \<noteq> [] \<and> l \<noteq> [] then (Inr (), update_phone_location s p l)
          else (Inl InvalidData, s)
      | _ \<Rightarrow> (Inl InvalidData, s))"

text \<open>
  \<^verbatim>\<open>dispatch_vehicle\<close>. The emergency location is read with
  \<^verbatim>\<open>get_phone_location\<close>, that is from \<^verbatim>\<open>phone_to_location\<close>, the dictionary
  \<^verbatim>\<open>update_location\<close> writes. The answer holds the ETA and the vehicle. An exception
  of \<^verbatim>\<open>calculate_eta\<close> is the answer 500, before any write.
\<close>

definition dispatch_vehicle :: "rounding \<Rightarrow> processor \<Rightarrow> string option \<Rightarrow> string option
    \<Rightarrow> (error + pynum \<times> vehicle) \<times> processor" where
  "dispatch_vehicle fp s vehicle_id phone =
     (case (vehicle_id, phone) of
        (Some v_id, Some ph) \<Rightarrow>
          if v_id = [] \<or> ph = [] then (Inl MissingParameters, s)
          else
            (case get_phone_location s ph of
               None \<Rightarrow> (Inl LocationNotFound, s)
             | Some emergency_location \<Rightarrow>
                 if emergency_location = [] then (Inl LocationNotFound, s)
                 else
                   (case find_index (\<lambda>v. vid v = v_id) (vehicles s) of
                      None \<Rightarrow> (Inl VehicleNotFound, s)
                    | Some i \<Rightarrow>
                        let vs = vehicles s
                        in (case calculate_eta fp vs (vehicle_location (vs ! i))
                                   emergency_location of
                              Inl e \<Rightarrow> (Inl e, s)
                            | Inr (e, vs') \<Rightarrow>
                                let vs'' = vs'[i := (vs' ! i)\<lparr>available := False,
                                                 status := ''EN_ROUTE'',
                                                 eta := py_str e @ '' mins''\<rparr>]
                                in (Inr (e, vs'' ! i), s\<lparr>vehicles := vs''\<rparr>))))
      | _ \<Rightarrow> (Inl MissingParameters, s))"

section \<open>Runs of the system\<close>

text \<open>
  A request to one of the handlers; \<open>handle\<close> keeps the state the handler leaves.
  A run starts from \<open>init\<close>, the state after the catalog was loaded.
\<close>

datatype request =
    GetVehicles "string option"
  | GetLocation string
  | CalculateEtas "pydict option" "string list"
  | UpdateLocation "string option" "pydict option"
  | Dispatch "string option" "string option"

fun handle :: "rounding \<Rightarrow> request \<Rightarrow> processor \<Rightarrow> processor" where
  "handle fp (GetVehicles t) s = s"
| "handle fp (GetLocation phone_number) s = snd (get_location fp s phone_number)"
| "handle fp (CalculateEtas loc ids) s = snd (calculate_etas fp s loc ids)"
| "handle fp (UpdateLocation phone loc) s = snd (update_location s phone loc)"
| "handle fp (Dispatch vehicle_id phone) s = snd (dispatch_vehicle fp s vehicle_id phone)"

definition run :: "rounding \<Rightarrow> request list \<Rightarrow> processor \<Rightarrow> processor" where
  "run fp rs s = fold (handle fp) rs s"

section \<open>Notions of the specification\<close>

text \<open>The invariant of the data model: \<open>available\<close> mirrors \<open>status\<close>.\<close>

definition consistent :: "vehicle \<Rightarrow> bool" where
  "consistent v \<longleftrightarrow> (available v \<longleftrightarrow> status v = ''AVAILABLE'')"

text \<open>A vehicle without its two display fields, the ones an ETA computation writes.\<close>

definition core :: "vehicle \<Rightarrow> vehicle" where
  "core v = v\<lparr>eta := [], distance := None\<rparr>"

text \<open>
  What \<^verbatim>\<open>calculate_eta\<close> returns or raises for a pair of locations, without the
  registry: the ETA does not depend on the registry.
\<close>

definition eta_of :: "rounding \<Rightarrow> pydict \<Rightarrow> pydict \<Rightarrow> error + pynum" where
  "eta_of fp vehicle_loc emergency_loc =
     map_sum id fst (calculate_eta fp [] vehicle_loc emergency_loc)"

text \<open>
  The double that line 85 computes under a rounding: the exact haversine term of the
  four coordinates (in degrees) plus the rounding error.
\<close>

definition computed_term :: "rounding \<Rightarrow> real \<Rightarrow> real \<Rightarrow> real \<Rightarrow> real \<Rightarrow> real" where
  "computed_term fp lat1 lon1 lat2 lon2 =
     haversine_a (radians lat1) (radians lon1) (radians lat2) (radians lon2)
       + fp lat1 lon1 lat2 lon2"

text \<open>
  The haversine formula as the specification names it: with \<open>hav \<theta> = sin\<^sup>2 (\<theta> / 2)\<close>,
  the distance is \<open>2 R arcsin (sqrt (hav \<Delta>\<phi> + cos \<phi>\<^sub>1 cos \<phi>\<^sub>2 hav \<Delta>\<lambda>))\<close> for \<open>R = 6371\<close>
  and angles in radians.
\<close>

definition hav :: "real \<Rightarrow> real" where
  "hav \<theta> = (sin (\<theta> / 2))\<^sup>2"

definition spec_distance_km :: "real \<Rightarrow> real \<Rightarrow> real \<Rightarrow> real \<Rightarrow> real" where
  "spec_distance_km lat1 lon1 lat2 lon2 =
     2 * 6371 * arcsin (sqrt (hav (lat2 * pi / 180 - lat1 * pi / 180)
       + cos (lat1 * pi / 180) * cos (lat2 * pi / 180) * hav (lon2 * pi / 180 - lon1 * pi / 180)))"

text \<open>
  The ETA of the specification for a distance: distance over speed times 60, brought to
  the nearest tenth (a tie to the even tenth), and at least 1 for a trip of non-zero
  length. The rounding is written with \<open>round\<close> of the library, not with the
  \<open>round1\<close> of the model.
\<close>

definition spec_round_tenth :: "real \<Rightarrow> real" where
  "spec_round_tenth x =
     (if x * 10 - of_int \<lfloor>x * 10\<rfloor> = 1 / 2 \<and> even \<lfloor>x * 10\<rfloor>
      then of_int \<lfloor>x * 10\<rfloor> / 10
      else of_int (round (x * 10)) / 10)"

definition spec_eta_minutes :: "real \<Rightarrow> real \<Rightarrow> real" where
  "spec_eta_minutes distanceKm speedKmh =
     (let e = spec_round_tenth (distanceKm / speedKmh * 60)
      in if 0 < distanceKm \<and> e < 1 then 1 else e)"

text \<open>A case-insensitive match of two texts.\<close>

definition matches_ci :: "(char \<Rightarrow> string) \<Rightarrow> string \<Rightarrow> string \<Rightarrow> bool" where
  "matches_ci uc a b \<longleftrightarrow> upper uc a = upper uc b"

text \<open>
  The summary entry of a vehicle with its ETA: the vehicle's own fields and the ETA.
\<close>

definition summary_of :: "vehicle \<Rightarrow> pynum \<Rightarrow> eta_summary" where
  "summary_of v e =
     \<lparr>vehicleId = vid v, vehicleName = name v, vehicleType = vtype v, etaMinutes = e,
      es_status = status v, es_available = available v,
      es_services = (case services v of None \<Rightarrow> [] | Some l \<Rightarrow> l)\<rparr>"

text \<open>The text the specification's \<open>applyEta\<close> writes for an ETA.\<close>

definition spec_eta_text :: "pynum \<Rightarrow> string" where
  "spec_eta_text e = (if num_val e = 0 then ''N/A'' else py_str e @ '' mins'')"

section \<open>Example data\<close>

text \<open>
  The vehicle and the target of the end-to-end scenario of the specification, and the
  state of a freshly started system whose catalog holds that vehicle.
\<close>

definition scenario_vehicle :: catalog_entry where
  "scenario_vehicle =
     \<lparr>c_id = ''V1'', c_name = ''Ambulance 1'', c_type = ''AMBULANCE'',
      c_location = \<lparr>latitude = JNum 13.3409, longitude = JNum 77.1025\<rparr>,
      c_services = Some [''ICU'']\<rparr>"

definition scenario_target :: pydict where
  "scenario_target = [(''lat'', JNum 13.3415), (''lng'', JNum 77.1030)]"

definition scenario_state :: processor where
  "scenario_state = init (Some [scenario_vehicle])"

text \<open>
  Variants of the scenario vehicle: one whose catalog type is not in upper case, one that
  has been dispatched, a second vehicle at the same coordinates, and a catalog entry
  with the id of the scenario vehicle.
\<close>

definition lower_typed_vehicle :: vehicle where
  "lower_typed_vehicle = (load_vehicle scenario_vehicle)\<lparr>vtype := ''Ambulance''\<rparr>"

definition dispatched_vehicle :: vehicle where
  "dispatched_vehicle =
     (load_vehicle scenario_vehicle)\<lparr>available := False, status := ''EN_ROUTE''\<rparr>"

definition twin_vehicle :: vehicle where
  "twin_vehicle = (load_vehicle scenario_vehicle)\<lparr>vid := ''V2'', name := ''Ambulance 2''\<rparr>"


text \<open>
  Two points that are antipodal: the exact haversine term between them is 1, and the
  doubles of the platform give \<open>1.0000000000000002\<close>, that is \<open>1 + 2\<^sup>-\<^sup>5\<^sup>2\<close>. The
  rounding \<open>one_ulp\<close> has this error everywhere.
\<close>

definition antipode_vehicle :: vehicle where
  "antipode_vehicle =
     (load_vehicle scenario_vehicle)\<lparr>vid := ''V8'', name := ''Ambulance 8'',
        location := \<lparr>latitude = JNum 8, longitude = JNum 1\<rparr>\<rparr>"

definition antipode_target :: pydict where
  "antipode_target = [(''lat'', JNum (- 8)), (''lng'', JNum (- 179))]"

definition one_ulp :: rounding where
  "one_ulp = (\<lambda>lat1 lon1 lat2 lon2. 1 / 2 ^ 52)"

text \<open>
  A vehicle close to the antipode of the seeded phone \<^verbatim>\<open>9876543211\<close>, at
  (13.3415, 77.1030). For this pair the doubles of the platform give the term
  \<open>1.0000000000000002\<close> as well; \<open>near_antipode_rounding\<close> has the error that
  gives this double for the pair, and no error for any other pair.
\<close>

definition near_antipode_vehicle :: vehicle where
  "near_antipode_vehicle =
     (load_vehicle scenario_vehicle)\<lparr>vid := ''V24'', name := ''Ambulance 24'',
        location := \<lparr>latitude = JNum (- 13.341500213), longitude = JNum (- 102.8970003)\<rparr>\<rparr>"

definition near_antipode_rounding :: rounding where
  "near_antipode_rounding =
     (\<lambda>lat1 lon1 lat2 lon2.
        if lat1 = - 13.341500213 \<and> lon1 = - 102.8970003 \<and> lat2 = 13.3415 \<and> lon2 = 77.1030
        then 1 + 1 / 2 ^ 52
               - haversine_a (radians lat1) (radians lon1) (radians lat2) (radians lon2)
        else 0)"

section \<open>Basic facts\<close>

text \<open>\<open>find_index\<close> returns the first index that satisfies the test, if there is one.\<close>

lemma find_index_Some:
  "find_index P xs = Some i \<Longrightarrow> i < length xs \<and> P (xs ! i) \<and> (\<forall>j<i. \<not> P (xs ! j))"
proof (induction xs arbitrary: i)
  case Nil
  then show ?case by simp
next
  case (Cons x xs)
  show ?case
  proof (cases "P x")
    case True
    with Cons.prems show ?thesis by simp
  next
    case False
    with Cons.prems obtain k where k: "find_index P xs = Some k" "i = Suc k"
      by auto
    from Cons.IH [OF k(1)] False k(2) show ?thesis
      by (auto simp: nth_Cons split: nat.splits)
  qed
qed

lemma find_index_None: "find_index P xs = None \<longleftrightarrow> (\<forall>x\<in>set xs. \<not> P x)"
  by (induction xs) auto

lemma get2_Nil [simp]: "get2 [] k1 k2 = JNull"
  by (simp add: get2_def)

section \<open>What an ETA computation leaves unchanged\<close>

text \<open>
  \<^verbatim>\<open>calculate_eta\<close> writes at most one \<^verbatim>\<open>distance\<close>, and the loops of the handlers
  write the \<^verbatim>\<open>eta\<close> of the vehicle they are at: the \<open>core\<close> of every vehicle stays,
  and the ETA returned, or the exception raised, does not depend on the registry.
\<close>

lemma core_simps [simp]:
  "core (v\<lparr>eta := e\<rparr>) = core v" "core (v\<lparr>distance := d\<rparr>) = core v"
  by (simp_all add: core_def)

lemma core_fields:
  "vid (core v) = vid v" "name (core v) = name v" "vtype (core v) = vtype v"
  "location (core v) = location v" "services (core v) = services v"
  "available (core v) = available v" "status (core v) = status v"
  by (simp_all add: core_def)

lemma core_eq_fields:
  assumes "core v = core w"
  shows "vid v = vid w" "name v = name w" "vtype v = vtype w" "location v = location w"
    "services v = services w" "available v = available w" "status v = status w"
  using arg_cong [OF assms, of vid] arg_cong [OF assms, of name] arg_cong [OF assms, of vtype]
    arg_cong [OF assms, of location] arg_cong [OF assms, of services]
    arg_cong [OF assms, of available] arg_cong [OF assms, of status]
  by (simp_all only: core_fields)

lemma map_core_update:
  assumes "i < length vs \<Longrightarrow> core w = core (vs ! i)"
  shows "map core (vs[i := w]) = map core vs"
proof (cases "i < length vs")
  case True
  with assms show ?thesis
    by (simp add: map_update list_update_same_conv)
next
  case False
  then show ?thesis by (simp add: list_update_beyond)
qed

lemma map_core_nth:
  assumes "map core vs' = map core vs" "i < length vs"
  shows "core (vs' ! i) = core (vs ! i)"
proof -
  from assms(1) have l: "length vs' = length vs"
    by (rule map_eq_imp_length_eq)
  have "core (vs' ! i) = map core vs' ! i"
    using assms(2) l by simp
  also have "\<dots> = core (vs ! i)"
    using assms by simp
  finally show ?thesis .
qed

lemma vehicle_location_core: "core v = core w \<Longrightarrow> vehicle_location v = vehicle_location w"
  using core_eq_fields(4) [of v w] by (simp add: vehicle_location_def)

lemma calculate_eta_cases:
  obtains (raised) e where "calculate_eta fp vs vl el = Inl e" "eta_of fp vl el = Inl e"
  | (same) x where "calculate_eta fp vs vl el = Inr (x, vs)" "eta_of fp vl el = Inr x"
  | (written) x i d where "calculate_eta fp vs vl el = Inr (x, vs[i := (vs ! i)\<lparr>distance := Some d\<rparr>])"
      "eta_of fp vl el = Inr x" "i < length vs"
proof -
  let ?d = "distance_km fp (py_float (get2 vl ''latitude'' ''lat'')) (py_float (get2 vl ''longitude'' ''lng''))
      (py_float (get2 el ''latitude'' ''lat'')) (py_float (get2 el ''longitude'' ''lng''))"
  let ?P = "\<lambda>v. latitude (location v) = get2 vl ''latitude'' ''lat''
      \<and> longitude (location v) = get2 vl ''longitude'' ''lng''"
  consider (g) "vl = [] \<or> el = [] \<or> \<not> (truthy (get2 vl ''latitude'' ''lat'') \<and> truthy (get2 vl ''longitude'' ''lng'')
        \<and> truthy (get2 el ''latitude'' ''lat'') \<and> truthy (get2 el ''longitude'' ''lng''))"
    | (c) "vl \<noteq> []" "el \<noteq> []" "truthy (get2 vl ''latitude'' ''lat'') \<and> truthy (get2 vl ''longitude'' ''lng'')
        \<and> truthy (get2 el ''latitude'' ''lat'') \<and> truthy (get2 el ''longitude'' ''lng'')"
    by blast
  then show thesis
  proof cases
    case g
    then have "calculate_eta fp vs vl el = Inr (PyInt 0, vs)" "eta_of fp vl el = Inr (PyInt 0)"
      by (auto simp: calculate_eta_def eta_of_def Let_def)
    then show thesis by (rule same)
  next
    case c
    show thesis
    proof (cases ?d)
      case (Inl e)
      with c have "calculate_eta fp vs vl el = Inl e" "eta_of fp vl el = Inl e"
        by (simp_all add: calculate_eta_def eta_of_def Let_def)
      then show thesis by (rule raised)
    next
      case (Inr dk)
      show thesis
      proof (cases "find_index ?P vs")
        case None
        with c Inr have "calculate_eta fp vs vl el = Inr (eta_minutes dk, vs)"
          "eta_of fp vl el = Inr (eta_minutes dk)"
          by (simp_all add: calculate_eta_def eta_of_def Let_def)
        then show thesis by (rule same)
      next
        case (Some i)
        with c Inr have "calculate_eta fp vs vl el
            = Inr (eta_minutes dk, vs[i := (vs ! i)\<lparr>distance := Some (round1 dk)\<rparr>])"
          "eta_of fp vl el = Inr (eta_minutes dk)"
          by (simp_all add: calculate_eta_def eta_of_def Let_def)
        moreover have "i < length vs"
          using find_index_Some [OF Some] by simp
        ultimately show thesis by (rule written)
      qed
    qed
  qed
qed

lemma calculate_eta_Inl: "calculate_eta fp vs vl el = Inl e \<longleftrightarrow> eta_of fp vl el = Inl e"
  by (rule calculate_eta_cases [of fp vs vl el]) auto

lemma calculate_eta_Inr:
  assumes "calculate_eta fp vs vl el = Inr (x, vs')"
  shows "eta_of fp vl el = Inr x" "map core vs' = map core vs" "map eta vs' = map eta vs"
    "length vs' = length vs"
proof -
  have *: "map eta (vs[i := (vs ! i)\<lparr>distance := d\<rparr>]) = map eta vs" for i d
    by (cases "i < length vs") (simp_all add: map_update list_update_same_conv list_update_beyond)
  have "eta_of fp vl el = Inr x \<and> map core vs' = map core vs \<and> map eta vs' = map eta vs"
    by (insert assms, rule calculate_eta_cases [of fp vs vl el]) (auto simp: map_core_update *)
  then show "eta_of fp vl el = Inr x" "map core vs' = map core vs" "map eta vs' = map eta vs"
    by simp_all
  then show "length vs' = length vs"
    using map_eq_imp_length_eq by blast
qed

lemma calculate_eta_of_Inr:
  assumes "eta_of fp vl el = Inr x"
  shows "\<exists>vs'. calculate_eta fp vs vl el = Inr (x, vs')"
  by (insert assms, rule calculate_eta_cases [of fp vs vl el]) auto

section \<open>The two loops over the registry\<close>

text \<open>
  The loop of \<^verbatim>\<open>get_location\<close> leaves the cores, leaves the \<^verbatim>\<open>eta\<close> of the
  vehicles it does not visit, and stops at the first vehicle whose ETA computation
  raises.
\<close>

lemma refresh_vehicles_core:
  "map core (snd (refresh_vehicles fp loc is vs)) = map core vs"
proof (induction "is" arbitrary: vs)
  case Nil
  then show ?case by simp
next
  case (Cons i "is")
  show ?case
  proof (cases "calculate_eta fp vs (vehicle_location (vs ! i)) loc")
    case (Inl e)
    then show ?thesis by simp
  next
    case (Inr p)
    obtain x vs' where p: "p = (x, vs')" by (cases p)
    have "map core (vs'[i := (vs' ! i)\<lparr>eta := eta_text x\<rparr>]) = map core vs"
      using calculate_eta_Inr(2) [OF Inr [unfolded p]] by (simp add: map_core_update)
    with Cons.IH [of "vs'[i := (vs' ! i)\<lparr>eta := eta_text x\<rparr>]"] show ?thesis
      by (simp add: Inr p)
  qed
qed

lemma refresh_vehicles_other:
  assumes "j \<notin> set is" "j < length vs"
  shows "eta (snd (refresh_vehicles fp loc is vs) ! j) = eta (vs ! j)"
  using assms
proof (induction "is" arbitrary: vs)
  case Nil
  then show ?case by simp
next
  case (Cons i "is")
  show ?case
  proof (cases "calculate_eta fp vs (vehicle_location (vs ! i)) loc")
    case (Inl e)
    then show ?thesis by simp
  next
    case (Inr p)
    obtain x vs' where p: "p = (x, vs')" by (cases p)
    note c = calculate_eta_Inr [OF Inr [unfolded p]]
    let ?vs = "vs'[i := (vs' ! i)\<lparr>eta := eta_text x\<rparr>]"
    have j: "j \<noteq> i" "j \<notin> set is" "j < length ?vs"
      using Cons.prems c(4) by simp_all
    have "eta (vs' ! j) = map eta vs' ! j"
      using Cons.prems(2) c(4) by simp
    then have "eta (?vs ! j) = eta (vs ! j)"
      using j(1) c(3) Cons.prems(2) by simp
    with Cons.IH [OF j(2,3)] show ?thesis
      by (simp add: Inr p)
  qed
qed

lemma refresh_vehicles_append:
  "refresh_vehicles fp loc (xs @ ys) vs =
     (case refresh_vehicles fp loc xs vs of
        (None, vs') \<Rightarrow> refresh_vehicles fp loc ys vs'
      | (Some e, vs') \<Rightarrow> (Some e, vs'))"
  by (induction xs arbitrary: vs) (simp_all split: sum.splits prod.splits)

text \<open>
  The loop against a reference registry \<open>vs0\<close> with the same cores as the current one:
  when no ETA computation raises, every index of the list ends with the text of its ETA.
\<close>

lemma refresh_vehicles_ok:
  assumes "map core vs = map core vs0"
    and "\<forall>i\<in>set is. i < length vs0 \<and> eta_of fp (vehicle_location (vs0 ! i)) loc = Inr (m i)"
  shows "fst (refresh_vehicles fp loc is vs) = None
    \<and> (distinct is \<longrightarrow>
         (\<forall>i\<in>set is. eta (snd (refresh_vehicles fp loc is vs) ! i) = eta_text (m i)))"
  using assms
proof (induction "is" arbitrary: vs)
  case Nil
  show ?case by simp
next
  case (Cons i "is")
  have len: "length vs = length vs0"
    using Cons.prems(1) by (rule map_eq_imp_length_eq)
  have i: "i < length vs0" "eta_of fp (vehicle_location (vs0 ! i)) loc = Inr (m i)"
    using Cons.prems(2) by simp_all
  have "vehicle_location (vs ! i) = vehicle_location (vs0 ! i)"
    by (rule vehicle_location_core [OF map_core_nth [OF Cons.prems(1) i(1)]])
  with i(2) obtain vs' where c: "calculate_eta fp vs (vehicle_location (vs ! i)) loc = Inr (m i, vs')"
    using calculate_eta_of_Inr [of fp "vehicle_location (vs0 ! i)" loc "m i" vs] by auto
  note r = calculate_eta_Inr [OF c]
  let ?vs = "vs'[i := (vs' ! i)\<lparr>eta := eta_text (m i)\<rparr>]"
  have core: "map core ?vs = map core vs0"
    using r(2) Cons.prems(1) by (simp add: map_core_update)
  have rest: "\<forall>i\<in>set is. i < length vs0 \<and> eta_of fp (vehicle_location (vs0 ! i)) loc = Inr (m i)"
    using Cons.prems(2) by simp
  have step: "refresh_vehicles fp loc (i # is) vs = refresh_vehicles fp loc is ?vs"
    by (simp add: c)
  note ih = Cons.IH [OF core rest]
  have here: "eta (snd (refresh_vehicles fp loc is ?vs) ! i) = eta_text (m i)" if "i \<notin> set is"
  proof -
    have "eta (snd (refresh_vehicles fp loc is ?vs) ! i) = eta (?vs ! i)"
      using that i(1) len r(4) by (intro refresh_vehicles_other) simp_all
    also have "\<dots> = eta_text (m i)"
      using i(1) len r(4) by simp
    finally show ?thesis .
  qed
  from ih here show ?case
    unfolding step by auto
qed

lemma refresh_vehicles_raise:
  assumes "\<forall>i\<in>set pre. i < length vs \<and> eta_of fp (vehicle_location (vs ! i)) loc = Inr (m i)"
    and "k < length vs" "eta_of fp (vehicle_location (vs ! k)) loc = Inl e"
  shows "refresh_vehicles fp loc (pre @ k # post) vs
           = (Some e, snd (refresh_vehicles fp loc pre vs))"
proof -
  obtain vs1 where p: "refresh_vehicles fp loc pre vs = (None, vs1)"
    using refresh_vehicles_ok [OF refl assms(1)]
    by (cases "refresh_vehicles fp loc pre vs") auto
  have core: "map core vs1 = map core vs"
    using refresh_vehicles_core [of fp loc pre vs] by (simp add: p)
  have "vehicle_location (vs1 ! k) = vehicle_location (vs ! k)"
    by (rule vehicle_location_core [OF map_core_nth [OF core assms(2)]])
  then have "calculate_eta fp vs1 (vehicle_location (vs1 ! k)) loc = Inl e"
    using assms(3) by (simp add: calculate_eta_Inl)
  then show ?thesis
    by (simp add: refresh_vehicles_append p)
qed


lemma eta_entries_core:
  "map core (fst (snd (eta_entries fp loc ids is vs etas))) = map core vs"
proof (induction "is" arbitrary: vs etas)
  case Nil
  then show ?case by simp
next
  case (Cons i "is")
  show ?case
  proof (cases "vid (vs ! i) \<in> set ids")
    case False
    with Cons.IH [of vs etas] show ?thesis by simp
  next
    case True
    show ?thesis
    proof (cases "calculate_eta fp vs (vehicle_location (vs ! i)) loc")
      case (Inl e)
      with True show ?thesis by simp
    next
      case (Inr p)
      obtain x vs' where p: "p = (x, vs')" by (cases p)
      have "map core (vs'[i := (vs' ! i)\<lparr>eta := eta_text x\<rparr>]) = map core vs"
        using calculate_eta_Inr(2) [OF Inr [unfolded p]] by (simp add: map_core_update)
      with Cons.IH [of "vs'[i := (vs' ! i)\<lparr>eta := eta_text x\<rparr>]"] True show ?thesis
        by (simp add: Inr p Let_def)
    qed
  qed
qed




lemma calculate_etas_core:
  "map core (vehicles (snd (calculate_etas fp s loc ids))) = map core (vehicles s)"
proof (cases "\<exists>l. loc = Some l \<and> l \<noteq> [] \<and> ids \<noteq> []")
  case True
  then obtain l where l: "loc = Some l" "l \<noteq> []" "ids \<noteq> []" by blast
  obtain r vs' etas where e: "eta_entries fp l ids [0 ..< length (vehicles s)] (vehicles s) [] = (r, vs', etas)"
    by (cases "eta_entries fp l ids [0 ..< length (vehicles s)] (vehicles s) []") auto
  have "map core vs' = map core (vehicles s)"
    using eta_entries_core [of fp l ids "[0 ..< length (vehicles s)]" "vehicles s" "[]"]
    by (simp add: e)
  then show ?thesis
    using l by (cases r) (simp_all add: calculate_etas_def e)
next
  case False
  then show ?thesis
    by (auto simp: calculate_etas_def split: option.splits)
qed

lemma get_location_core:
  "map core (vehicles (snd (get_location fp s phone))) = map core (vehicles s)"
proof (cases "get_location_from_phone phone")
  case None
  then show ?thesis by (simp add: get_location_def)
next
  case (Some ld)
  obtain r vs' where e: "refresh_vehicles fp (ld_location ld) [0 ..< length (vehicles s)] (vehicles s) = (r, vs')"
    by (cases "refresh_vehicles fp (ld_location ld) [0 ..< length (vehicles s)] (vehicles s)")
  have "map core vs' = map core (vehicles s)"
    using refresh_vehicles_core [of fp "ld_location ld" "[0 ..< length (vehicles s)]" "vehicles s"]
    by (simp add: e)
  then show ?thesis
    by (cases r) (simp_all add: get_location_def Some e)
qed

section \<open>The ETA computation\<close>

text \<open>
  Claim C3. Whenever one of the four coordinate components that \<^verbatim>\<open>calculate_eta\<close>
  reads is the number 0, the function returns the integer 0 and leaves the registry as
  it was, whatever the other three components are and whatever the rounding; this is
  the answer it also gives for a component that is absent (\<^verbatim>\<open>None\<close>).
\<close>

theorem calculate_eta_zero_component:
  assumes "z = JNum 0 \<or> z = JNull"
    and "get2 vehicle_loc ''latitude'' ''lat'' = z \<or> get2 vehicle_loc ''longitude'' ''lng'' = z
       \<or> get2 emergency_loc ''latitude'' ''lat'' = z \<or> get2 emergency_loc ''longitude'' ''lng'' = z"
  shows "calculate_eta fp vs vehicle_loc emergency_loc = Inr (PyInt 0, vs)"
  using assms by (auto simp: calculate_eta_def Let_def)

text \<open>A vehicle on the equator, and a target without a longitude.\<close>

theorem calculate_eta_zero_component_witness:
  "calculate_eta one_ulp [] [(''latitude'', JNum 0), (''longitude'', JNum 77.1025)]
     [(''lat'', JNum 13.3415), (''lng'', JNum 77.103)] = Inr (PyInt 0, [])
   \<and> calculate_eta no_error [] [(''latitude'', JNum 13.3409), (''longitude'', JNum 77.1025)]
     [(''lat'', JNum 13.3415)] = Inr (PyInt 0, [])"
  using calculate_eta_zero_component [of "JNum 0"
      "[(''latitude'', JNum 0), (''longitude'', JNum 77.1025)]"
      "[(''lat'', JNum 13.3415), (''lng'', JNum 77.103)]" one_ulp "[]"]
    calculate_eta_zero_component [of JNull
      "[(''latitude'', JNum 13.3409), (''longitude'', JNum 77.1025)]"
      "[(''lat'', JNum 13.3415)]" no_error "[]"]
  by (simp add: get2_def)

lemma calculate_eta_computed:
  assumes "get2 vl ''latitude'' ''lat'' = JNum a" "get2 vl ''longitude'' ''lng'' = JNum b"
    and "get2 el ''latitude'' ''lat'' = JNum c" "get2 el ''longitude'' ''lng'' = JNum d"
    and "a \<noteq> 0" "b \<noteq> 0" "c \<noteq> 0" "d \<noteq> 0"
  shows "calculate_eta fp vs vl el =
     (case distance_km fp a b c d of
        Inl e \<Rightarrow> Inl e
      | Inr dk \<Rightarrow>
          Inr (eta_minutes dk,
            case find_index (\<lambda>v. latitude (location v) = JNum a \<and> longitude (location v) = JNum b) vs of
              None \<Rightarrow> vs
            | Some i \<Rightarrow> vs[i := (vs ! i)\<lparr>distance := Some (round1 dk)\<rparr>]))"
proof -
  have "vl \<noteq> []" "el \<noteq> []"
    using assms(1,3) by auto
  with assms show ?thesis
    by (simp add: calculate_eta_def Let_def split: option.splits sum.splits)
qed

text \<open>
  Claim C10. When \<^verbatim>\<open>calculate_eta\<close> computes an ETA (all four components are
  non-zero numbers and the distance is computed), the rounded distance is written into
  the first vehicle of the registry whose stored latitude and longitude equal the
  vehicle coordinates it was given; no vehicle is written when none has these
  coordinates; and no other field than \<^verbatim>\<open>distance\<close> changes in any vehicle. When the
  distance computation raises, the function raises and nothing is written.
\<close>

theorem distance_goes_to_first_coordinate_match:
  assumes "get2 vl ''latitude'' ''lat'' = JNum a" "get2 vl ''longitude'' ''lng'' = JNum b"
    and "get2 el ''latitude'' ''lat'' = JNum c" "get2 el ''longitude'' ''lng'' = JNum d"
    and "a \<noteq> 0" "b \<noteq> 0" "c \<noteq> 0" "d \<noteq> 0"
  shows "(\<forall>e. distance_km fp a b c d = Inl e \<longrightarrow> calculate_eta fp vs vl el = Inl e)
    \<and> (\<forall>dk. distance_km fp a b c d = Inr dk \<longrightarrow>
         (\<exists>vs'. calculate_eta fp vs vl el = Inr (eta_minutes dk, vs')
            \<and> ((\<forall>v\<in>set vs. \<not> (latitude (location v) = JNum a \<and> longitude (location v) = JNum b))
                 \<longrightarrow> vs' = vs)
            \<and> (\<forall>i<length vs.
                  latitude (location (vs ! i)) = JNum a \<and> longitude (location (vs ! i)) = JNum b
                  \<and> (\<forall>j<i. \<not> (latitude (location (vs ! j)) = JNum a
                               \<and> longitude (location (vs ! j)) = JNum b))
                  \<longrightarrow> vs' = vs[i := (vs ! i)\<lparr>distance := Some (round1 dk)\<rparr>])
            \<and> map (\<lambda>v. v\<lparr>distance := None\<rparr>) vs' = map (\<lambda>v. v\<lparr>distance := None\<rparr>) vs))"
proof (intro conjI allI impI)
  fix e assume "distance_km fp a b c d = Inl e"
  then show "calculate_eta fp vs vl el = Inl e"
    using calculate_eta_computed [OF assms, of fp vs] by simp
next
  fix dk assume d: "distance_km fp a b c d = Inr dk"
  let ?P = "\<lambda>v. latitude (location v) = JNum a \<and> longitude (location v) = JNum b"
  note c = calculate_eta_computed [OF assms, of fp vs]
  show "\<exists>vs'. calculate_eta fp vs vl el = Inr (eta_minutes dk, vs')
            \<and> ((\<forall>v\<in>set vs. \<not> ?P v) \<longrightarrow> vs' = vs)
            \<and> (\<forall>i<length vs.
                  latitude (location (vs ! i)) = JNum a \<and> longitude (location (vs ! i)) = JNum b
                  \<and> (\<forall>j<i. \<not> ?P (vs ! j))
                  \<longrightarrow> vs' = vs[i := (vs ! i)\<lparr>distance := Some (round1 dk)\<rparr>])
            \<and> map (\<lambda>v. v\<lparr>distance := None\<rparr>) vs' = map (\<lambda>v. v\<lparr>distance := None\<rparr>) vs"
  proof (cases "find_index ?P vs")
    case None
    then have n: "\<forall>v\<in>set vs. \<not> ?P v"
      by (simp add: find_index_None)
    have r: "calculate_eta fp vs vl el = Inr (eta_minutes dk, vs)"
      using c d None by simp
    have first: "\<forall>i<length vs.
        latitude (location (vs ! i)) = JNum a \<and> longitude (location (vs ! i)) = JNum b
        \<and> (\<forall>j<i. \<not> ?P (vs ! j))
        \<longrightarrow> vs = vs[i := (vs ! i)\<lparr>distance := Some (round1 dk)\<rparr>]"
      using n nth_mem by blast
    show ?thesis
      by (rule exI [of _ vs]) (use r first in simp)
  next
    case (Some k)
    from find_index_Some [OF Some] have k: "k < length vs" "?P (vs ! k)" "\<forall>j<k. \<not> ?P (vs ! j)"
      by blast+
    let ?vs = "vs[k := (vs ! k)\<lparr>distance := Some (round1 dk)\<rparr>]"
    have r: "calculate_eta fp vs vl el = Inr (eta_minutes dk, ?vs)"
      using c d Some by simp
    have eq: "k = i" if i: "i < length vs" "?P (vs ! i)" "\<forall>j<i. \<not> ?P (vs ! j)" for i
    proof (rule ccontr)
      assume "k \<noteq> i"
      then consider "k < i" | "i < k" by linarith
      then show False
      proof cases
        case 1
        with i(3) k(2) show False by blast
      next
        case 2
        with k(3) i(2) show False by blast
      qed
    qed
    have first: "\<forall>i<length vs.
        latitude (location (vs ! i)) = JNum a \<and> longitude (location (vs ! i)) = JNum b
        \<and> (\<forall>j<i. \<not> ?P (vs ! j))
        \<longrightarrow> ?vs = vs[i := (vs ! i)\<lparr>distance := Some (round1 dk)\<rparr>]"
    proof (intro allI impI)
      fix i assume "i < length vs"
        "latitude (location (vs ! i)) = JNum a \<and> longitude (location (vs ! i)) = JNum b
         \<and> (\<forall>j<i. \<not> ?P (vs ! j))"
      then have "k = i" using eq [of i] by blast
      then show "?vs = vs[i := (vs ! i)\<lparr>distance := Some (round1 dk)\<rparr>]" by simp
    qed
    have none: "(\<forall>v\<in>set vs. \<not> ?P v) \<longrightarrow> ?vs = vs"
      using k(1,2) nth_mem by blast
    have frame: "map (\<lambda>v. v\<lparr>distance := None\<rparr>) ?vs = map (\<lambda>v. v\<lparr>distance := None\<rparr>) vs"
      using k(1) by (simp add: map_update list_update_same_conv)
    show ?thesis
      by (rule exI [of _ ?vs]) (intro conjI r none first frame)
  qed
qed

text \<open>
  Claim C6. For a phone number that is not in the seeded \<^verbatim>\<open>phone_locations\<close>,
  \<^verbatim>\<open>get_location\<close> answers "not found" and returns the state it was given: no
  vehicle, and so no \<^verbatim>\<open>eta\<close>, is written.
\<close>

theorem get_location_unknown_phone:
  assumes "map_of phone_locations phone_number = None"
  shows "get_location fp s phone_number = (Inl LocationNotFound, s)"
  using assms by (simp add: get_location_def get_location_from_phone_def)

text \<open>The unknown phone of the specification.\<close>

theorem get_location_unknown_phone_witness:
  "map_of phone_locations ''0000000000'' = None
   \<and> get_location one_ulp scenario_state ''0000000000'' = (Inl LocationNotFound, scenario_state)"
  using get_location_unknown_phone [of "''0000000000''" one_ulp scenario_state]
  by (simp add: phone_locations_def)

section \<open>Dispatch and the invariant\<close>

text \<open>
  A dispatch that finds the live location and the vehicle, and whose ETA computation
  does not raise, writes the three fields of that vehicle; every other outcome returns
  the state unchanged. Each handler keeps \<open>consistent\<close> for all vehicles, and so does
  every run.
\<close>

lemma consistent_core: "consistent (core v) = consistent v"
  by (simp add: consistent_def core_fields)

lemma consistent_map_core:
  assumes "map core vs' = map core vs" "\<forall>v\<in>set vs. consistent v"
  shows "\<forall>v\<in>set vs'. consistent v"
proof
  fix v assume "v \<in> set vs'"
  then have "core v \<in> set (map core vs)"
    using assms(1) by (metis imageI set_map)
  then obtain w where "w \<in> set vs" "core v = core w"
    by auto
  with assms(2) show "consistent v"
    using consistent_core [of v] consistent_core [of w] by simp
qed

lemma dispatch_vehicle_found:
  assumes "v_id \<noteq> []" "ph \<noteq> []" "phone_to_location s ph = Some el" "el \<noteq> []"
    and "find_index (\<lambda>v. vid v = v_id) (vehicles s) = Some i"
  shows "dispatch_vehicle fp s (Some v_id) (Some ph) =
     (case calculate_eta fp (vehicles s) (vehicle_location (vehicles s ! i)) el of
        Inl e \<Rightarrow> (Inl e, s)
      | Inr (x, vs') \<Rightarrow>
          (Inr (x, (vs' ! i)\<lparr>available := False, status := ''EN_ROUTE'',
                     eta := py_str x @ '' mins''\<rparr>),
           s\<lparr>vehicles := vs'[i := (vs' ! i)\<lparr>available := False, status := ''EN_ROUTE'',
                     eta := py_str x @ '' mins''\<rparr>]\<rparr>))"
proof (cases "calculate_eta fp (vehicles s) (vehicle_location (vehicles s ! i)) el")
  case (Inl e)
  with assms show ?thesis
    by (simp add: dispatch_vehicle_def get_phone_location_def Let_def)
next
  case (Inr p)
  obtain x vs' where p: "p = (x, vs')" by (cases p)
  have "i < length vs'"
    using find_index_Some [OF assms(5)] calculate_eta_Inr(4) [OF Inr [unfolded p]] by simp
  then have "vs'[i := w] ! i = w" for w
    by simp
  with assms show ?thesis
    by (simp add: dispatch_vehicle_def get_phone_location_def Let_def Inr p)
qed

lemma dispatch_vehicle_no_location:
  assumes "v_id \<noteq> []" "ph \<noteq> []" "phone_to_location s ph = None"
  shows "dispatch_vehicle fp s (Some v_id) (Some ph) = (Inl LocationNotFound, s)"
  using assms by (simp add: dispatch_vehicle_def get_phone_location_def)

lemma dispatch_vehicle_vehicles:
  "vehicles (snd (dispatch_vehicle fp s vehicle_id phone)) = vehicles s
   \<or> (\<exists>vs' i w. map core vs' = map core (vehicles s) \<and> \<not> available w \<and> status w = ''EN_ROUTE''
         \<and> vehicles (snd (dispatch_vehicle fp s vehicle_id phone)) = vs'[i := w])"
proof (cases "\<exists>v_id ph el i. vehicle_id = Some v_id \<and> phone = Some ph \<and> v_id \<noteq> [] \<and> ph \<noteq> []
    \<and> phone_to_location s ph = Some el \<and> el \<noteq> []
    \<and> find_index (\<lambda>v. vid v = v_id) (vehicles s) = Some i")
  case True
  then obtain v_id ph el i where h: "vehicle_id = Some v_id" "phone = Some ph" "v_id \<noteq> []" "ph \<noteq> []"
      "phone_to_location s ph = Some el" "el \<noteq> []"
      "find_index (\<lambda>v. vid v = v_id) (vehicles s) = Some i"
    by blast
  note d = dispatch_vehicle_found [OF h(3-7), of fp]
  show ?thesis
  proof (cases "calculate_eta fp (vehicles s) (vehicle_location (vehicles s ! i)) el")
    case (Inl e)
    with d h(1,2) show ?thesis by simp
  next
    case (Inr p)
    obtain x vs' where p: "p = (x, vs')" by (cases p)
    let ?w = "(vs' ! i)\<lparr>available := False, status := ''EN_ROUTE'', eta := py_str x @ '' mins''\<rparr>"
    have m: "map core vs' = map core (vehicles s)"
      by (rule calculate_eta_Inr(2) [OF Inr [unfolded p]])
    have v: "vehicles (snd (dispatch_vehicle fp s vehicle_id phone)) = vs'[i := ?w]"
      using d h(1,2) by (simp add: Inr p)
    have "\<not> available ?w" "status ?w = ''EN_ROUTE''"
      by simp_all
    with m v show ?thesis
      by blast
  qed
next
  case False
  then have "snd (dispatch_vehicle fp s vehicle_id phone) = s"
    by (auto simp: dispatch_vehicle_def get_phone_location_def split: option.splits)
  then show ?thesis by simp
qed

lemma dispatch_vehicle_consistent:
  assumes "\<forall>v\<in>set (vehicles s). consistent v"
  shows "\<forall>v\<in>set (vehicles (snd (dispatch_vehicle fp s vehicle_id phone))). consistent v"
proof -
  from dispatch_vehicle_vehicles [of fp s vehicle_id phone]
  consider "vehicles (snd (dispatch_vehicle fp s vehicle_id phone)) = vehicles s"
    | vs' i w where "map core vs' = map core (vehicles s)" "\<not> available w" "status w = ''EN_ROUTE''"
        "vehicles (snd (dispatch_vehicle fp s vehicle_id phone)) = vs'[i := w]"
    by blast
  then show ?thesis
  proof cases
    case 1
    with assms show ?thesis by simp
  next
    case 2
    have c: "\<forall>v\<in>set vs'. consistent v"
      by (rule consistent_map_core [OF 2(1) assms])
    have w: "consistent w"
      using 2(2,3) by (simp add: consistent_def)
    show ?thesis
    proof
      fix v assume "v \<in> set (vehicles (snd (dispatch_vehicle fp s vehicle_id phone)))"
      then have "v \<in> insert w (set vs')"
        using 2(4) set_update_subset_insert [of vs' i w] by auto
      with c w show "consistent v" by auto
    qed
  qed
qed

lemma handle_consistent:
  assumes "\<forall>v\<in>set (vehicles s). consistent v"
  shows "\<forall>v\<in>set (vehicles (handle fp r s)). consistent v"
proof (cases r)
  case (GetVehicles t)
  with assms show ?thesis by simp
next
  case (GetLocation p)
  with consistent_map_core [OF get_location_core assms] show ?thesis by simp
next
  case (CalculateEtas loc ids)
  with consistent_map_core [OF calculate_etas_core assms] show ?thesis by simp
next
  case (UpdateLocation p l)
  with assms show ?thesis
    by (auto simp: update_location_def update_phone_location_def split: option.splits)
next
  case (Dispatch v p)
  with dispatch_vehicle_consistent [OF assms] show ?thesis by simp
qed

lemma run_consistent:
  assumes "\<forall>v\<in>set (vehicles s). consistent v"
  shows "\<forall>v\<in>set (vehicles (run fp rs s)). consistent v"
  using assms unfolding run_def
proof (induction rs arbitrary: s)
  case Nil
  then show ?case by simp
next
  case (Cons r rs)
  from Cons.IH [OF handle_consistent [OF Cons.prems]] show ?case by simp
qed

lemma init_consistent: "\<forall>v\<in>set (vehicles (init data)). consistent v"
  by (auto simp: init_def load_vehicles_def load_vehicle_def consistent_def split: option.splits)

text \<open>
  Claim C4. After the catalog load and any sequence of requests (listing, location
  resolution, batch ETA, live location update, dispatch), every vehicle of the registry
  has \<^verbatim>\<open>available\<close> true exactly when its \<^verbatim>\<open>status\<close> is \<^verbatim>\<open>AVAILABLE\<close>; in
  particular no vehicle is available and \<^verbatim>\<open>EN_ROUTE\<close> at once. This holds whatever
  the rounding, and whichever requests end with an error.
\<close>

theorem available_mirrors_status:
  "\<forall>v\<in>set (vehicles (run fp rs (init data))).
     consistent v \<and> \<not> (available v \<and> status v = ''EN_ROUTE'')"
proof
  fix v assume "v \<in> set (vehicles (run fp rs (init data)))"
  with run_consistent [OF init_consistent] have "consistent v" by blast
  then show "consistent v \<and> \<not> (available v \<and> status v = ''EN_ROUTE'')"
    by (auto simp: consistent_def)
qed

lemma handle_length: "length (vehicles (handle fp r s)) = length (vehicles s)"
proof (cases r)
  case (Dispatch a b)
  from dispatch_vehicle_vehicles [of fp s a b]
  consider "vehicles (snd (dispatch_vehicle fp s a b)) = vehicles s"
    | vs' i w where "map core vs' = map core (vehicles s)"
        "vehicles (snd (dispatch_vehicle fp s a b)) = vs'[i := w]"
    by blast
  then show ?thesis
  proof cases
    case 1
    then show ?thesis by (simp add: Dispatch)
  next
    case 2
    from map_eq_imp_length_eq [OF 2(1)] 2(2) show ?thesis
      by (simp add: Dispatch)
  qed
next
  case (GetLocation p)
  then show ?thesis
    using map_eq_imp_length_eq [OF get_location_core [of fp s p]] by simp
next
  case (CalculateEtas l ids)
  then show ?thesis
    using map_eq_imp_length_eq [OF calculate_etas_core [of fp s l ids]] by simp
next
  case (UpdateLocation p l)
  then show ?thesis
    by (auto simp: update_location_def update_phone_location_def split: option.splits)
qed simp

lemma run_length: "length (vehicles (run fp rs s)) = length (vehicles s)"
  unfolding run_def by (induction rs arbitrary: s) (simp_all add: handle_length)

text \<open>
  The invariant on a run that records a live location, computes ETAs, dispatches and
  resolves a phone.
\<close>

theorem available_mirrors_status_witness:
  "consistent (vehicles (run one_ulp [UpdateLocation (Some ''9876543210'') (Some scenario_target),
        CalculateEtas (Some scenario_target) [''V1''],
        Dispatch (Some ''V1'') (Some ''9876543210''),
        GetLocation ''9876543211''] (init (Some [scenario_vehicle]))) ! 0)
   \<and> \<not> (available (vehicles (run one_ulp [UpdateLocation (Some ''9876543210'') (Some scenario_target),
        CalculateEtas (Some scenario_target) [''V1''],
        Dispatch (Some ''V1'') (Some ''9876543210''),
        GetLocation ''9876543211''] (init (Some [scenario_vehicle]))) ! 0)
      \<and> status (vehicles (run one_ulp [UpdateLocation (Some ''9876543210'') (Some scenario_target),
        CalculateEtas (Some scenario_target) [''V1''],
        Dispatch (Some ''V1'') (Some ''9876543210''),
        GetLocation ''9876543211''] (init (Some [scenario_vehicle]))) ! 0) = ''EN_ROUTE'')"
proof -
  let ?rs = "[UpdateLocation (Some ''9876543210'') (Some scenario_target),
        CalculateEtas (Some scenario_target) [''V1''],
        Dispatch (Some ''V1'') (Some ''9876543210''),
        GetLocation ''9876543211'']"
  let ?s = "run one_ulp ?rs (init (Some [scenario_vehicle]))"
  have "length (vehicles ?s) = 1"
    by (simp add: run_length init_def load_vehicles_def)
  then have "vehicles ?s ! 0 \<in> set (vehicles ?s)"
    by simp
  with available_mirrors_status [of one_ulp ?rs "Some [scenario_vehicle]"] show ?thesis
    by blast
qed

section \<open>The haversine distance\<close>

text \<open>
  The exact haversine term is a convex combination of two numbers of the unit interval.
  When the double of the term is in the unit interval, both square roots of the code
  are taken and the \<^verbatim>\<open>atan2\<close> of the code is the \<open>arcsin\<close> of the formula; when it
  is not, one of the square roots raises. Then bounds for \<open>arctan\<close>, \<open>sin\<close> and
  \<open>cos\<close> from the sign of a derivative, a value of \<open>pi\<close> to three decimals from
  Machin's formula, and with them an enclosure of the distance of the end-to-end
  scenario.
\<close>

lemma sin_half_squared: "(sin (x / 2))\<^sup>2 = (1 - cos x) / 2" for x :: real
  using cos_double_sin [of "x / 2"] by simp

lemma unit_interval_halves:
  fixes c :: real
  assumes "- 1 \<le> c" "c \<le> 1"
  shows "0 \<le> (1 - c) / 2" "(1 - c) / 2 \<le> 1" "0 \<le> (1 + c) / 2" "(1 + c) / 2 \<le> 1"
  using assms by simp_all

lemma haversine_a_convex:
  "haversine_a lat1 lon1 lat2 lon2 =
     (1 - cos (lat2 - lat1)) / 2 * (1 - (sin ((lon2 - lon1) / 2))\<^sup>2)
     + (1 + cos (lat1 + lat2)) / 2 * (sin ((lon2 - lon1) / 2))\<^sup>2"
proof -
  have e: "cos lat1 * cos lat2 = (cos (lat2 - lat1) + cos (lat1 + lat2)) / 2"
    by (simp add: cos_diff cos_add)
  have "haversine_a lat1 lon1 lat2 lon2 =
      (1 - cos (lat2 - lat1)) / 2
      + (cos (lat2 - lat1) + cos (lat1 + lat2)) / 2 * (sin ((lon2 - lon1) / 2))\<^sup>2"
    by (simp only: haversine_a_def Let_def sin_half_squared e)
  also have "\<dots> = (1 - cos (lat2 - lat1)) / 2 * (1 - (sin ((lon2 - lon1) / 2))\<^sup>2)
     + (1 + cos (lat1 + lat2)) / 2 * (sin ((lon2 - lon1) / 2))\<^sup>2"
    by (simp add: field_simps)
  finally show ?thesis .
qed

lemma haversine_a_nonneg: "0 \<le> haversine_a lat1 lon1 lat2 lon2"
proof -
  let ?s = "(sin ((lon2 - lon1) / 2))\<^sup>2"
  have s: "0 \<le> ?s" "0 \<le> 1 - ?s"
    by (simp_all add: abs_square_le_1)
  have p1: "0 \<le> (1 - cos (lat2 - lat1)) / 2"
    by (rule unit_interval_halves(1) [OF cos_ge_minus_one cos_le_one])
  have p2: "0 \<le> (1 + cos (lat1 + lat2)) / 2"
    by (rule unit_interval_halves(3) [OF cos_ge_minus_one cos_le_one])
  have "0 \<le> (1 - cos (lat2 - lat1)) / 2 * (1 - ?s)" "0 \<le> (1 + cos (lat1 + lat2)) / 2 * ?s"
    by (rule mult_nonneg_nonneg [OF p1 s(2)], rule mult_nonneg_nonneg [OF p2 s(1)])
  then show ?thesis
    by (simp add: haversine_a_convex)
qed

lemma haversine_a_le_1: "haversine_a lat1 lon1 lat2 lon2 \<le> 1"
proof -
  let ?s = "(sin ((lon2 - lon1) / 2))\<^sup>2"
  have s: "0 \<le> ?s" "0 \<le> 1 - ?s"
    by (simp_all add: abs_square_le_1)
  have p1: "(1 - cos (lat2 - lat1)) / 2 \<le> 1"
    by (rule unit_interval_halves(2) [OF cos_ge_minus_one cos_le_one])
  have p2: "(1 + cos (lat1 + lat2)) / 2 \<le> 1"
    by (rule unit_interval_halves(4) [OF cos_ge_minus_one cos_le_one])
  have "(1 - cos (lat2 - lat1)) / 2 * (1 - ?s) \<le> 1 * (1 - ?s)"
    by (rule mult_right_mono [OF p1 s(2)])
  moreover have "(1 + cos (lat1 + lat2)) / 2 * ?s \<le> 1 * ?s"
    by (rule mult_right_mono [OF p2 s(1)])
  ultimately show ?thesis
    by (simp add: haversine_a_convex)
qed

lemma atan2_sqrt:
  assumes "0 \<le> a" "a \<le> 1"
  shows "atan2 (sqrt a) (sqrt (1 - a)) = arcsin (sqrt a)"
proof (cases "a = 1")
  case True
  then show ?thesis by (simp add: atan2_def)
next
  case False
  with assms have lt: "a < 1" by simp
  then have pos: "0 < sqrt (1 - a)" by simp
  have s: "- 1 < sqrt a" "sqrt a < 1"
    using assms lt by (simp_all add: less_le_trans [of "-1" 0])
  have "arcsin (sqrt a) = arctan (sqrt a / sqrt (1 - (sqrt a)\<^sup>2))"
    by (rule arcsin_arctan [OF s])
  also have "(sqrt a)\<^sup>2 = a" using assms by simp
  finally show ?thesis using pos by (simp add: atan2_def)
qed

lemma distance_km_unfold:
  "distance_km fp a b c d =
     (if computed_term fp a b c d < 0 \<or> 1 < computed_term fp a b c d then Inl MathDomainError
      else Inr (12742 * arcsin (sqrt (computed_term fp a b c d))))"
proof -
  define t where "t = computed_term fp a b c d"
  have d: "distance_km fp a b c d =
      (case py_sqrt t of
         Inl e \<Rightarrow> Inl e
       | Inr sqrt_a \<Rightarrow>
           (case py_sqrt (1 - t) of
              Inl e \<Rightarrow> Inl e
            | Inr sqrt_1_a \<Rightarrow> Inr (6371 * (2 * atan2 sqrt_a sqrt_1_a))))"
    by (simp only: distance_km_def computed_term_def Let_def t_def)
  consider "t < 0" | "1 < t" | "0 \<le> t" "t \<le> 1"
    by linarith
  then have "distance_km fp a b c d =
      (if t < 0 \<or> 1 < t then Inl MathDomainError else Inr (12742 * arcsin (sqrt t)))"
  proof cases
    case 1
    then show ?thesis by (simp add: d py_sqrt_def)
  next
    case 2
    then show ?thesis by (simp add: d py_sqrt_def)
  next
    case 3
    then show ?thesis by (simp add: d py_sqrt_def atan2_sqrt)
  qed
  then show ?thesis by (simp only: t_def)
qed

lemma computed_term_exact:
  "computed_term no_error a b c d = haversine_a (radians a) (radians b) (radians c) (radians d)"
  by (simp add: computed_term_def no_error_def)

lemma distance_km_exact: "distance_km no_error a b c d = Inr (spec_distance_km a b c d)"
proof -
  have "\<not> (computed_term no_error a b c d < 0 \<or> 1 < computed_term no_error a b c d)"
    using haversine_a_nonneg [of "radians a" "radians b" "radians c" "radians d"]
      haversine_a_le_1 [of "radians a" "radians b" "radians c" "radians d"]
    by (simp add: computed_term_exact)
  then show ?thesis
    unfolding distance_km_unfold
    by (simp add: computed_term_exact spec_distance_km_def haversine_a_def radians_def hav_def Let_def)
qed

lemma eta_of_computed:
  assumes "get2 vl ''latitude'' ''lat'' = JNum a" "get2 vl ''longitude'' ''lng'' = JNum b"
    and "get2 el ''latitude'' ''lat'' = JNum c" "get2 el ''longitude'' ''lng'' = JNum d"
    and "a \<noteq> 0" "b \<noteq> 0" "c \<noteq> 0" "d \<noteq> 0"
  shows "eta_of fp vl el = map_sum id eta_minutes (distance_km fp a b c d)"
  using calculate_eta_computed [OF assms, of fp "[]"]
  by (cases "distance_km fp a b c d") (simp_all add: eta_of_def)

lemma distance_km_Inl: "distance_km fp a b c d = Inl e \<Longrightarrow> e = MathDomainError"
  unfolding distance_km_unfold by (simp split: if_splits)

lemma eta_of_Inl: "eta_of fp vl el = Inl e \<Longrightarrow> e = MathDomainError"
  by (auto simp: eta_of_def calculate_eta_def Let_def dest: distance_km_Inl
      split: if_splits sum.splits option.splits)

lemma arctan_le_self: "0 \<le> x \<Longrightarrow> arctan x \<le> x"
proof -
  assume x: "0 \<le> x"
  have "0 - arctan 0 \<le> x - arctan x"
  proof (rule DERIV_nonneg_imp_nondecreasing [where f = "\<lambda>t. t - arctan t", OF x])
    fix t :: real
    assume "0 \<le> t" "t \<le> x"
    have "((\<lambda>t. t - arctan t) has_real_derivative (1 - 1 / (1 + t\<^sup>2))) (at t)"
      by (auto intro!: derivative_eq_intros simp: divide_inverse)
    moreover have "0 < 1 + t\<^sup>2"
      using zero_le_power2 [of t] by linarith
    then have "0 \<le> 1 - 1 / (1 + t\<^sup>2)"
      by (simp add: divide_le_eq_1_pos)
    ultimately show "\<exists>y. ((\<lambda>t. t - arctan t) has_real_derivative y) (at t) \<and> 0 \<le> y"
      by blast
  qed
  then show ?thesis by simp
qed

lemma geometric_bounds:
  fixes u :: real
  assumes "0 \<le> u"
  shows "1 - u \<le> 1 / (1 + u)" "1 / (1 + u) \<le> 1 - u + u * u"
proof -
  have p: "0 < 1 + u" using assms by simp
  have "(1 - u) * (1 + u) = 1 - u * u"
    by (simp add: algebra_simps)
  also have "\<dots> \<le> 1" by simp
  finally show "1 - u \<le> 1 / (1 + u)"
    using p by (simp add: pos_le_divide_eq)
  have "0 \<le> u * (u * u)" using assms by simp
  moreover have "(1 - u + u * u) * (1 + u) = 1 + u * (u * u)"
    by (simp add: algebra_simps)
  ultimately have "1 \<le> (1 - u + u * u) * (1 + u)" by simp
  then show "1 / (1 + u) \<le> 1 - u + u * u"
    using p by (simp add: pos_divide_le_eq)
qed

lemma arctan_lower:
  fixes x :: real
  assumes x: "0 \<le> x"
  shows "x - x ^ 3 / 3 \<le> arctan x"
proof -
  have "arctan 0 - 0 + 0 ^ 3 / 3 \<le> arctan x - x + x ^ 3 / 3"
  proof (rule DERIV_nonneg_imp_nondecreasing [where f = "\<lambda>t. arctan t - t + t ^ 3 / 3", OF x])
    fix t :: real
    assume "0 \<le> t" "t \<le> x"
    have "((\<lambda>t. arctan t - t + t ^ 3 / 3) has_real_derivative (inverse (1 + t\<^sup>2) - 1 + t\<^sup>2)) (at t)"
      by (auto intro!: derivative_eq_intros)
    moreover have "0 \<le> inverse (1 + t\<^sup>2) - 1 + t\<^sup>2"
      using geometric_bounds(1) [of "t\<^sup>2"] by (simp add: inverse_eq_divide)
    ultimately show "\<exists>y. ((\<lambda>t. arctan t - t + t ^ 3 / 3) has_real_derivative y) (at t) \<and> 0 \<le> y"
      by blast
  qed
  then show ?thesis by simp
qed

lemma arctan_upper:
  fixes x :: real
  assumes x: "0 \<le> x"
  shows "arctan x \<le> x - x ^ 3 / 3 + x ^ 5 / 5"
proof -
  have "0 - 0 ^ 3 / 3 + 0 ^ 5 / 5 - arctan 0 \<le> x - x ^ 3 / 3 + x ^ 5 / 5 - arctan x"
  proof (rule DERIV_nonneg_imp_nondecreasing [where f = "\<lambda>t. t - t ^ 3 / 3 + t ^ 5 / 5 - arctan t", OF x])
    fix t :: real
    assume "0 \<le> t" "t \<le> x"
    have "((\<lambda>t. t - t ^ 3 / 3 + t ^ 5 / 5 - arctan t) has_real_derivative
          (1 - t\<^sup>2 + t ^ 4 - inverse (1 + t\<^sup>2))) (at t)"
      by (auto intro!: derivative_eq_intros)
    moreover have "t ^ 4 = t\<^sup>2 * t\<^sup>2"
      by (simp add: power2_eq_square power4_eq_xxxx)
    then have "0 \<le> 1 - t\<^sup>2 + t ^ 4 - inverse (1 + t\<^sup>2)"
      using geometric_bounds(2) [of "t\<^sup>2"] by (simp add: inverse_eq_divide)
    ultimately show "\<exists>y. ((\<lambda>t. t - t ^ 3 / 3 + t ^ 5 / 5 - arctan t) has_real_derivative y) (at t) \<and> 0 \<le> y"
      by blast
  qed
  then show ?thesis by simp
qed

lemma pi_bounds: "3.1405 < pi" "pi < 3.1417"
proof -
  define a :: real where "a = arctan (1 / 5)"
  define b :: real where "b = arctan (1 / 239)"
  have m: "pi = 16 * a - 4 * b"
    using machin by (simp add: a_def b_def)
  have l5: "1 / 5 - 1 / 375 \<le> a"
    using arctan_lower [of "1 / 5"] by (simp add: power_divide a_def)
  have u5: "a \<le> 1 / 5 - 1 / 375 + 1 / 15625"
    using arctan_upper [of "1 / 5"] by (simp add: power_divide a_def)
  have l239: "1 / 239 - 1 / 40955757 \<le> b"
    using arctan_lower [of "1 / 239"] by (simp add: power_divide b_def)
  have u239: "b \<le> 1 / 239"
    unfolding b_def by (rule arctan_le_self) simp
  show "3.1405 < pi"
    unfolding m using l5 u239 by simp
  show "pi < 3.1417"
    unfolding m using u5 l239 by simp
qed

lemma cos_lower:
  fixes x :: real
  assumes x: "0 \<le> x"
  shows "1 - x\<^sup>2 / 2 \<le> cos x"
proof -
  have "cos 0 - 1 + 0\<^sup>2 / 2 \<le> cos x - 1 + x\<^sup>2 / 2"
  proof (rule DERIV_nonneg_imp_nondecreasing [where f = "\<lambda>t. cos t - 1 + t\<^sup>2 / 2", OF x])
    fix t :: real
    assume t: "0 \<le> t" "t \<le> x"
    have "((\<lambda>t. cos t - 1 + t\<^sup>2 / 2) has_real_derivative (- sin t + t)) (at t)"
      by (auto intro!: derivative_eq_intros)
    moreover have "0 \<le> - sin t + t"
      using sin_x_le_x [OF t(1)] by simp
    ultimately show "\<exists>y. ((\<lambda>t. cos t - 1 + t\<^sup>2 / 2) has_real_derivative y) (at t) \<and> 0 \<le> y"
      by blast
  qed
  then show ?thesis by simp
qed

lemma sin_lower:
  fixes x :: real
  assumes x: "0 \<le> x"
  shows "x - x ^ 3 / 6 \<le> sin x"
proof -
  have "sin 0 - 0 + 0 ^ 3 / 6 \<le> sin x - x + x ^ 3 / 6"
  proof (rule DERIV_nonneg_imp_nondecreasing [where f = "\<lambda>t. sin t - t + t ^ 3 / 6", OF x])
    fix t :: real
    assume t: "0 \<le> t" "t \<le> x"
    have "((\<lambda>t. sin t - t + t ^ 3 / 6) has_real_derivative (cos t - 1 + t\<^sup>2 / 2)) (at t)"
      by (auto intro!: derivative_eq_intros)
    moreover have "0 \<le> cos t - 1 + t\<^sup>2 / 2"
      using cos_lower [OF t(1)] by simp
    ultimately show "\<exists>y. ((\<lambda>t. sin t - t + t ^ 3 / 6) has_real_derivative y) (at t) \<and> 0 \<le> y"
      by blast
  qed
  then show ?thesis by simp
qed

lemma arcsin_ge_self:
  assumes "0 \<le> s" "s \<le> 1"
  shows "s \<le> arcsin s"
proof -
  have "0 \<le> arcsin s"
    using assms by (simp add: arcsin_nonneg)
  from sin_x_le_x [OF this] show ?thesis
    using assms by simp
qed

lemma arcsin_sqrt_enclosure:
  assumes lo: "L\<^sup>2 \<le> t" and hi: "t \<le> U\<^sup>2" and t: "0 \<le> t" "t \<le> 1"
    and U: "0 \<le> U" and T: "0 \<le> T" "T \<le> 1" and UT: "U \<le> T - T ^ 3 / 6"
  shows "L \<le> arcsin (sqrt t)" and "arcsin (sqrt t) \<le> T"
proof -
  have s: "0 \<le> sqrt t" "sqrt t \<le> 1"
    using t by simp_all
  have "L \<le> sqrt t"
    by (rule real_le_rsqrt [OF lo])
  also have "\<dots> \<le> arcsin (sqrt t)"
    by (rule arcsin_ge_self [OF s])
  finally show "L \<le> arcsin (sqrt t)" .
  have "sqrt t \<le> U"
    by (rule real_le_lsqrt [OF U hi])
  also note UT
  also have "T - T ^ 3 / 6 \<le> sin T"
    by (rule sin_lower [OF T(1)])
  finally have "sqrt t \<le> sin T" .
  moreover have "- 1 \<le> sqrt t"
    using s(1) by linarith
  ultimately have "arcsin (sqrt t) \<le> arcsin (sin T)"
    by (intro arcsin_le_arcsin) simp_all
  also have "arcsin (sin T) = T"
    using T pi_ge_two by (intro arcsin_sin) linarith+
  finally show "arcsin (sqrt t) \<le> T" .
qed

lemma small_sin_bounds:
  fixes x :: real
  assumes "l + 1 / 10 ^ 15 \<le> x" "x \<le> u" "0 \<le> l" "u \<le> 1 / 10 ^ 5"
  shows "l \<le> sin x" "sin x \<le> u" "l\<^sup>2 \<le> (sin x)\<^sup>2" "(sin x)\<^sup>2 \<le> u\<^sup>2"
proof -
  have x0: "0 \<le> x" using assms by simp
  have "x ^ 3 \<le> (1 / 10 ^ 5) ^ 3"
    using assms x0 by (intro power_mono) linarith+
  then have "x ^ 3 / 6 \<le> 1 / 10 ^ 15"
    by (simp add: power_divide)
  with sin_lower [OF x0] assms(1) show l: "l \<le> sin x"
    by linarith
  from sin_x_le_x [OF x0] assms(2) show u: "sin x \<le> u"
    by linarith
  from l assms(3) show "l\<^sup>2 \<le> (sin x)\<^sup>2"
    by (intro power_mono) simp_all
  from l u assms(3) show "(sin x)\<^sup>2 \<le> u\<^sup>2"
    by (intro power_mono) linarith+
qed

lemma scenario_term:
  "(67379 / 10 ^ 10)\<^sup>2
      \<le> haversine_a (radians 13.3409) (radians 77.1025) (radians 13.3415) (radians 77.1030)"
  "haversine_a (radians 13.3409) (radians 77.1025) (radians 13.3415) (radians 77.1030)
      \<le> (68161 / 10 ^ 10)\<^sup>2"
proof -
  define P :: real where "P = pi"
  have P: "3.1405 < P" "P < 3.1417"
    unfolding P_def by (rule pi_bounds)+
  define x where "x = P / 600000"
  define y where "y = P / 720000"
  define p1 where "p1 = 13.3409 * P / 180"
  define p2 where "p2 = 13.3415 * P / 180"
  define sx where "sx = (sin x)\<^sup>2"
  define sy where "sy = (sin y)\<^sup>2"
  define c where "c = cos p1 * cos p2"
  have a: "haversine_a (radians 13.3409) (radians 77.1025) (radians 13.3415) (radians 77.1030)
      = sx + c * sy"
    by (simp add: haversine_a_def Let_def sx_def sy_def c_def p1_def p2_def P_def radians_def
        x_def y_def)
  have sx: "(52341 / 10 ^ 10)\<^sup>2 \<le> sx" "sx \<le> (52362 / 10 ^ 10)\<^sup>2"
    unfolding sx_def
    by (rule small_sin_bounds(3) [of _ _ "52362 / 10 ^ 10"] small_sin_bounds(4) [of "52341 / 10 ^ 10"];
        use P in \<open>simp add: x_def\<close>)+
  have sy: "(43618 / 10 ^ 10)\<^sup>2 \<le> sy" "sy \<le> (43635 / 10 ^ 10)\<^sup>2"
    unfolding sy_def
    by (rule small_sin_bounds(3) [of _ _ "43635 / 10 ^ 10"] small_sin_bounds(4) [of "43618 / 10 ^ 10"];
        use P in \<open>simp add: y_def\<close>)+
  have cosb: "0.9728 \<le> cos p \<and> cos p \<le> 1" if "0 \<le> p" "p \<le> 0.23287" for p :: real
  proof -
    have "p\<^sup>2 \<le> 0.23287\<^sup>2"
      using that by (intro power_mono) simp_all
    then have "0.9728 \<le> 1 - p\<^sup>2 / 2"
      by (simp add: power2_eq_square)
    with cos_lower [OF that(1)] show ?thesis
      by simp
  qed
  have c1: "0.9728 \<le> cos p1 \<and> cos p1 \<le> 1"
    by (rule cosb; use P in \<open>simp add: p1_def\<close>)
  have c2: "0.9728 \<le> cos p2 \<and> cos p2 \<le> 1"
    by (rule cosb; use P in \<open>simp add: p2_def\<close>)
  have c: "0.9728 * 0.9728 \<le> c" "c \<le> 1"
  proof -
    show "0.9728 * 0.9728 \<le> c"
      unfolding c_def using c1 c2 by (intro mult_mono) simp_all
    have "cos p1 * cos p2 \<le> 1 * 1"
      using c1 c2 by (intro mult_mono) simp_all
    then show "c \<le> 1" by (simp add: c_def)
  qed
  have sy0: "0 \<le> sy" by (simp add: sy_def)
  have "0.9728 * 0.9728 * (43618 / 10 ^ 10)\<^sup>2 \<le> c * sy"
    using c(1) sy(1) by (intro mult_mono) simp_all
  with sx(1) have lo: "(67379 / 10 ^ 10)\<^sup>2 \<le> sx + c * sy"
    by (simp add: power2_eq_square)
  have "c * sy \<le> 1 * (43635 / 10 ^ 10)\<^sup>2"
    using c(2) sy(2) sy0 by (intro mult_mono) simp_all
  with sx(2) have hi: "sx + c * sy \<le> (68161 / 10 ^ 10)\<^sup>2"
    by (simp add: power2_eq_square)
  show "(67379 / 10 ^ 10)\<^sup>2
      \<le> haversine_a (radians 13.3409) (radians 77.1025) (radians 13.3415) (radians 77.1030)"
    unfolding a by (rule lo)
  show "haversine_a (radians 13.3409) (radians 77.1025) (radians 13.3415) (radians 77.1030)
      \<le> (68161 / 10 ^ 10)\<^sup>2"
    unfolding a by (rule hi)
qed

text \<open>
  The scenario under a rounding error of at most \<open>10\<^sup>-\<^sup>1\<^sup>4\<close> on the term, which is about
  \<open>4.5 \<sqdot> 10\<^sup>-\<^sup>1\<^sup>1\<close> there (the error of the doubles is smaller by orders of magnitude):
  the distance is computed and lies between 0.085 and 0.087 km.
\<close>

lemma scenario_distance:
  assumes "\<bar>fp 13.3409 77.1025 13.3415 77.1030\<bar> \<le> 1 / 10 ^ 14"
  shows "\<exists>dk. distance_km fp 13.3409 77.1025 13.3415 77.1030 = Inr dk \<and> 0.085 < dk \<and> dk < 0.087"
proof -
  define h where "h = haversine_a (radians 13.3409) (radians 77.1025) (radians 13.3415) (radians 77.1030)"
  define r where "r = fp 13.3409 77.1025 13.3415 77.1030"
  define t where "t = computed_term fp 13.3409 77.1025 13.3415 77.1030"
  have t: "t = h + r"
    by (simp add: t_def h_def r_def computed_term_def)
  have h: "(67379 / 10 ^ 10)\<^sup>2 \<le> h" "h \<le> (68161 / 10 ^ 10)\<^sup>2"
    unfolding h_def by (rule scenario_term)+
  have r: "- (1 / 10 ^ 14) \<le> r" "r \<le> 1 / 10 ^ 14"
    using assms by (simp_all add: r_def abs_le_iff)
  have c: "(67370 / 10 ^ 10 :: real)\<^sup>2 \<le> (67379 / 10 ^ 10)\<^sup>2 - 1 / 10 ^ 14"
    "(68161 / 10 ^ 10 :: real)\<^sup>2 + 1 / 10 ^ 14 \<le> (68170 / 10 ^ 10)\<^sup>2"
    by (simp_all add: power2_eq_square)
  have lo: "(67370 / 10 ^ 10)\<^sup>2 \<le> t"
    using h(1) r(1) c(1) unfolding t by linarith
  have hi: "t \<le> (68170 / 10 ^ 10)\<^sup>2"
    using h(2) r(2) c(2) unfolding t by linarith
  have t0: "0 \<le> t"
    using lo zero_le_power2 [of "67370 / 10 ^ 10 :: real"] by linarith
  have "(68170 / 10 ^ 10 :: real)\<^sup>2 \<le> 1"
    by (simp add: power2_eq_square)
  with hi have t1: "t \<le> 1" by linarith
  have k: "(0::real) \<le> 68170 / 10 ^ 10" "(0::real) \<le> 68171 / 10 ^ 10" "(68171 / 10 ^ 10 :: real) \<le> 1"
    "(68170 / 10 ^ 10 :: real) \<le> 68171 / 10 ^ 10 - (68171 / 10 ^ 10) ^ 3 / 6"
    by (simp_all add: power_divide)
  note e = arcsin_sqrt_enclosure [OF lo hi t0 t1 k]
  have d: "distance_km fp 13.3409 77.1025 13.3415 77.1030 = Inr (12742 * arcsin (sqrt t))"
    unfolding distance_km_unfold using t0 t1 by (simp add: t_def)
  have "0.085 < 12742 * arcsin (sqrt t)" "12742 * arcsin (sqrt t) < 0.087"
    using e by simp_all
  with d show ?thesis by simp
qed

lemma round1_nearest_tenth:
  "\<exists>k::int. round1 x = of_int k / 10 \<and> \<bar>round1 x - x\<bar> \<le> 1 / 20"
proof -
  define k where "k = \<lfloor>x * 10\<rfloor>"
  define f where "f = x * 10 - of_int k"
  have f: "0 \<le> f" "f < 1"
    unfolding f_def k_def by linarith+
  have x: "x = (of_int k + f) / 10"
    by (simp add: f_def)
  have r: "round1 x = (if f < 1 / 2 then of_int k / 10
         else if 1 / 2 < f then of_int (k + 1) / 10
         else if even k then of_int k / 10
         else of_int (k + 1) / 10)"
    by (simp only: round1_def Let_def f_def k_def)
  consider "f < 1 / 2" | "1 / 2 < f" | "f = 1 / 2 \<and> even k" | "f = 1 / 2 \<and> odd k"
    by fastforce
  then show ?thesis
  proof cases
    case 1
    then have e: "round1 x = of_int k / 10"
      by (simp add: r)
    have b: "\<bar>of_int k / 10 - x\<bar> \<le> 1 / 20"
      using 1 f unfolding x by (simp add: field_simps)
    show ?thesis
      unfolding e by (intro exI [of _ "k"] conjI refl b)
  next
    case 2
    then have e: "round1 x = of_int (k + 1) / 10"
      by (simp add: r)
    have b: "\<bar>of_int (k + 1) / 10 - x\<bar> \<le> 1 / 20"
      using 2 f unfolding x by (simp add: field_simps)
    show ?thesis
      unfolding e by (intro exI [of _ "k + 1"] conjI refl b)
  next
    case 3
    then have e: "round1 x = of_int k / 10"
      by (simp add: r)
    have b: "\<bar>of_int k / 10 - x\<bar> \<le> 1 / 20"
      using 3 unfolding x by (simp add: field_simps)
    show ?thesis
      unfolding e by (intro exI [of _ "k"] conjI refl b)
  next
    case 4
    then have e: "round1 x = of_int (k + 1) / 10"
      by (simp add: r)
    have b: "\<bar>of_int (k + 1) / 10 - x\<bar> \<le> 1 / 20"
      using 4 unfolding x by (simp add: field_simps)
    show ?thesis
      unfolding e by (intro exI [of _ "k + 1"] conjI refl b)
  qed
qed

lemma round1_tenth:
  assumes "1 / 20 < x" "x < 3 / 20"
  shows "round1 x = 1 / 10"
proof (cases "x < 1 / 10")
  case True
  with assms have "\<lfloor>x * 10\<rfloor> = 0"
    by (intro floor_unique) simp_all
  with assms show ?thesis
    by (simp add: round1_def Let_def)
next
  case False
  with assms have "\<lfloor>x * 10\<rfloor> = 1"
    by (intro floor_unique) simp_all
  with assms show ?thesis
    by (simp add: round1_def Let_def)
qed

lemma round1_nonneg: "0 \<le> x \<Longrightarrow> 0 \<le> round1 x"
proof -
  assume "0 \<le> x"
  then have "0 \<le> \<lfloor>x * 10\<rfloor>" by simp
  then have "(0::real) \<le> of_int \<lfloor>x * 10\<rfloor>" "(0::real) \<le> of_int (\<lfloor>x * 10\<rfloor> + 1)"
    by simp_all
  then show ?thesis
    by (simp add: round1_def Let_def)
qed

lemma round1_zero [simp]: "round1 0 = 0"
  by (simp add: round1_def)

lemma round1_spec: "round1 x = spec_round_tenth x"
proof -
  define k where "k = \<lfloor>x * 10\<rfloor>"
  define f where "f = x * 10 - of_int k"
  have f: "0 \<le> f" "f < 1"
    unfolding f_def k_def by linarith+
  have x: "x * 10 = of_int k + f"
    by (simp add: f_def)
  have r: "round1 x = (if f < 1 / 2 then of_int k / 10
         else if 1 / 2 < f then of_int (k + 1) / 10
         else if even k then of_int k / 10
         else of_int (k + 1) / 10)"
    by (simp only: round1_def Let_def f_def k_def)
  have s: "spec_round_tenth x = (if f = 1 / 2 \<and> even k then of_int k / 10
         else of_int (round (x * 10)) / 10)"
    by (simp only: spec_round_tenth_def f_def k_def)
  have lo: "round (x * 10) = k" if "f < 1 / 2"
    unfolding round_def x using that f by (intro floor_unique) simp_all
  have hi: "round (x * 10) = k + 1" if "1 / 2 \<le> f"
    unfolding round_def x using that f by (intro floor_unique) simp_all
  consider "f < 1 / 2" | "1 / 2 < f" | "f = 1 / 2"
    by linarith
  then show ?thesis
  proof cases
    case 1
    with lo show ?thesis by (simp add: r s)
  next
    case 2
    with hi show ?thesis by (simp add: r s)
  next
    case 3
    with hi show ?thesis by (simp add: r s)
  qed
qed

lemma eta_minutes_spec: "num_val (eta_minutes x) = spec_eta_minutes x 60"
  by (simp add: eta_minutes_def spec_eta_minutes_def Let_def round1_spec)

lemma eta_minutes_sub_minute:
  assumes "1 / 20 < x" "x < 3 / 20"
  shows "eta_minutes x = PyInt 1"
  using assms round1_tenth [OF assms] by (simp add: eta_minutes_def Let_def)

lemma str_int_small: "str_int 0 = ''0''" "str_int 1 = ''1''"
  by (simp_all add: str_int_def str_nat.simps digit_def)

lemma scenario_eta:
  assumes "\<bar>fp 13.3409 77.1025 13.3415 77.1030\<bar> \<le> 1 / 10 ^ 14"
  shows "\<exists>dk. distance_km fp 13.3409 77.1025 13.3415 77.1030 = Inr dk \<and> 0.085 < dk \<and> dk < 0.087
    \<and> eta_minutes dk = PyInt 1 \<and> round1 dk = 1 / 10"
proof -
  from scenario_distance [of fp, OF assms] obtain dk
    where d: "distance_km fp 13.3409 77.1025 13.3415 77.1030 = Inr dk" "0.085 < dk" "dk < 0.087"
    by blast
  have b: "1 / 20 < dk" "dk < 3 / 20"
    using d(2,3) by simp_all
  from d eta_minutes_sub_minute [OF b] round1_tenth [OF b] show ?thesis
    by blast
qed

lemma antipode_term:
  "haversine_a (radians 8) (radians 1) (radians (- 8)) (radians (- 179)) = 1"
proof -
  have h: "(- 179 * pi / 180 - pi / 180) / 2 = - (pi / 2)"
    by (simp add: field_simps)
  have "(- 8 * pi / 180 - 8 * pi / 180) / 2 = - (8 * pi / 180)"
    by (simp add: field_simps)
  then have "haversine_a (radians 8) (radians 1) (radians (- 8)) (radians (- 179))
      = (sin (8 * pi / 180))\<^sup>2 + (cos (8 * pi / 180))\<^sup>2"
    by (simp add: haversine_a_def radians_def Let_def h power2_eq_square)
  then show ?thesis by simp
qed

section \<open>The ETA against the specification\<close>

lemma distance_km_same: "distance_km no_error a b a b = Inr 0"
  unfolding distance_km_unfold by (simp add: computed_term_exact haversine_a_def Let_def)

lemma scenario_gets:
  "get2 (vehicle_location (load_vehicle scenario_vehicle)) ''latitude'' ''lat'' = JNum 13.3409"
  "get2 (vehicle_location (load_vehicle scenario_vehicle)) ''longitude'' ''lng'' = JNum 77.1025"
  "get2 (vehicle_location twin_vehicle) ''latitude'' ''lat'' = JNum 13.3409"
  "get2 (vehicle_location twin_vehicle) ''longitude'' ''lng'' = JNum 77.1025"
  "get2 scenario_target ''latitude'' ''lat'' = JNum 13.3415"
  "get2 scenario_target ''longitude'' ''lng'' = JNum 77.1030"
  "get2 (vehicle_location antipode_vehicle) ''latitude'' ''lat'' = JNum 8"
  "get2 (vehicle_location antipode_vehicle) ''longitude'' ''lng'' = JNum 1"
  "get2 antipode_target ''latitude'' ''lat'' = JNum (- 8)"
  "get2 antipode_target ''longitude'' ''lng'' = JNum (- 179)"
  by (simp_all add: get2_def vehicle_location_def twin_vehicle_def antipode_vehicle_def
      load_vehicle_def scenario_vehicle_def scenario_target_def antipode_target_def)

lemma scenario_nonzero:
  "(13.3409::real) \<noteq> 0" "(77.1025::real) \<noteq> 0" "(13.3415::real) \<noteq> 0" "(77.1030::real) \<noteq> 0"
  "(8::real) \<noteq> 0" "(1::real) \<noteq> 0" "(- 8::real) \<noteq> 0" "(- 179::real) \<noteq> 0"
  by simp_all

lemma no_error_bound: "\<bar>no_error a b c d\<bar> \<le> 1 / 10 ^ 14"
  by (simp add: no_error_def)

lemma antipode_raises: "distance_km one_ulp 8 1 (- 8) (- 179) = Inl MathDomainError"
  unfolding distance_km_unfold by (simp add: computed_term_def antipode_term one_ulp_def)

text \<open>
  Claim C5 on the code. With the four components present and non-zero,
  \<^verbatim>\<open>calculate_eta\<close> raises when the double of the haversine term is above 1 or below 0,
  and returns nothing; the exact term is never outside the unit interval. When the
  double is in the unit interval, the ETA returned is the one of the specification for
  the distance \<open>2 R arcsin (sqrt a)\<close> of that double: over 60 km/h, times 60, rounded to
  one decimal place, 1 when the distance is positive and the rounded value below 1, and
  0 for the distance 0; a distance of 0.5 km gives 1. With no rounding error it is the
  ETA of the specification for the haversine distance. The rounding of the
  specification gives a tenth that is at most 0.05 away.
\<close>

theorem calculate_eta_raises_outside_unit_interval:
  assumes "get2 vl ''latitude'' ''lat'' = JNum a" "get2 vl ''longitude'' ''lng'' = JNum b"
    and "get2 el ''latitude'' ''lat'' = JNum c" "get2 el ''longitude'' ''lng'' = JNum d"
    and "a \<noteq> 0" "b \<noteq> 0" "c \<noteq> 0" "d \<noteq> 0"
  shows "(computed_term fp a b c d < 0 \<or> 1 < computed_term fp a b c d
            \<longrightarrow> calculate_eta fp vs vl el = Inl MathDomainError)
    \<and> (0 \<le> computed_term fp a b c d \<and> computed_term fp a b c d \<le> 1
          \<longrightarrow> (\<exists>e vs'. calculate_eta fp vs vl el = Inr (e, vs')
                 \<and> num_val e
                     = spec_eta_minutes (2 * 6371 * arcsin (sqrt (computed_term fp a b c d))) 60))
    \<and> (fp a b c d = 0
          \<longrightarrow> (\<exists>e vs'. calculate_eta fp vs vl el = Inr (e, vs')
                 \<and> num_val e = spec_eta_minutes (spec_distance_km a b c d) 60))
    \<and> 0 \<le> computed_term no_error a b c d \<and> computed_term no_error a b c d \<le> 1
    \<and> (\<forall>x. \<exists>k::int. spec_round_tenth x = of_int k / 10 \<and> \<bar>spec_round_tenth x - x\<bar> \<le> 1 / 20)
    \<and> spec_eta_minutes 0 60 = 0 \<and> num_val (eta_minutes 0.5) = 1 \<and> spec_eta_minutes 0.5 60 = 1"
proof -
  let ?t = "computed_term fp a b c d"
  note c = calculate_eta_computed [OF assms, of fp vs]
  have raise: "calculate_eta fp vs vl el = Inl MathDomainError" if "?t < 0 \<or> 1 < ?t"
    using that c by (simp add: distance_km_unfold)
  have ok: "\<exists>e vs'. calculate_eta fp vs vl el = Inr (e, vs')
      \<and> num_val e = spec_eta_minutes (2 * 6371 * arcsin (sqrt ?t)) 60"
    if "0 \<le> ?t \<and> ?t \<le> 1"
  proof -
    have "distance_km fp a b c d = Inr (12742 * arcsin (sqrt ?t))"
      using that by (simp add: distance_km_unfold)
    with c obtain vs' where
      "calculate_eta fp vs vl el = Inr (eta_minutes (12742 * arcsin (sqrt ?t)), vs')"
      by simp
    moreover have "num_val (eta_minutes (12742 * arcsin (sqrt ?t)))
        = spec_eta_minutes (2 * 6371 * arcsin (sqrt ?t)) 60"
      by (simp add: eta_minutes_spec)
    ultimately show ?thesis by blast
  qed
  have h: "0 \<le> haversine_a (radians a) (radians b) (radians c) (radians d)"
    "haversine_a (radians a) (radians b) (radians c) (radians d) \<le> 1"
    by (rule haversine_a_nonneg, rule haversine_a_le_1)
  have exact: "\<exists>e vs'. calculate_eta fp vs vl el = Inr (e, vs')
      \<and> num_val e = spec_eta_minutes (spec_distance_km a b c d) 60"
    if z: "fp a b c d = 0"
  proof -
    have t: "?t = haversine_a (radians a) (radians b) (radians c) (radians d)"
      by (simp add: computed_term_def z)
    have "2 * 6371 * arcsin (sqrt ?t) = spec_distance_km a b c d"
      unfolding t by (simp add: spec_distance_km_def haversine_a_def radians_def hav_def Let_def)
    with ok h t show ?thesis by simp
  qed
  have r: "0 \<le> computed_term no_error a b c d" "computed_term no_error a b c d \<le> 1"
    using h by (simp_all add: computed_term_exact)
  have half: "eta_minutes 0.5 = PyInt 1"
    by (simp add: eta_minutes_def round1_def Let_def)
  have s: "spec_eta_minutes 0 60 = 0" "num_val (eta_minutes 0.5) = 1" "spec_eta_minutes 0.5 60 = 1"
    using eta_minutes_spec [of "0.5"] eta_minutes_spec [of 0] half
    by (simp_all add: eta_minutes_def)
  have n: "\<forall>x. \<exists>k::int. spec_round_tenth x = of_int k / 10 \<and> \<bar>spec_round_tenth x - x\<bar> \<le> 1 / 20"
  proof
    fix x :: real
    show "\<exists>k::int. spec_round_tenth x = of_int k / 10 \<and> \<bar>spec_round_tenth x - x\<bar> \<le> 1 / 20"
      using round1_nearest_tenth [of x] unfolding round1_spec .
  qed
  show ?thesis
    by (intro conjI impI raise ok exact r n s) simp_all
qed

text \<open>
  From the vehicle at (8, 1) to the target at (-8, -179), its antipode, where the doubles
  give the term \<open>1.0000000000000002\<close>, nothing is returned; for the scenario of the
  specification with no rounding error the ETA is 1.
\<close>

theorem calculate_eta_raises_outside_unit_interval_witness:
  "calculate_eta one_ulp [] (vehicle_location antipode_vehicle) antipode_target
     = Inl MathDomainError
   \<and> (\<exists>e vs'. calculate_eta no_error [] (vehicle_location (load_vehicle scenario_vehicle))
          scenario_target = Inr (e, vs') \<and> num_val e = 1)"
proof -
  have t: "1 < computed_term one_ulp 8 1 (- 8) (- 179)"
    by (simp add: computed_term_def antipode_term one_ulp_def)
  from scenario_eta [of no_error, OF no_error_bound] obtain dk
    where d: "distance_km no_error 13.3409 77.1025 13.3415 77.1030 = Inr dk"
      "eta_minutes dk = PyInt 1"
    by blast
  have "spec_distance_km 13.3409 77.1025 13.3415 77.1030 = dk"
    using d(1) by (simp add: distance_km_exact)
  then have e: "spec_eta_minutes (spec_distance_km 13.3409 77.1025 13.3415 77.1030) 60 = 1"
    using eta_minutes_spec [of dk] d(2) by simp
  have z: "no_error 13.3409 77.1025 13.3415 77.1030 = 0"
    by (simp add: no_error_def)
  from calculate_eta_raises_outside_unit_interval [OF scenario_gets(7,8,9,10) scenario_nonzero(5,6,7,8),
      of one_ulp "[]"]
    calculate_eta_raises_outside_unit_interval [OF scenario_gets(1,2,5,6) scenario_nonzero(1,2,3,4),
      of no_error "[]"] t e z
  show ?thesis
    by simp
qed

section \<open>The end-to-end scenario\<close>

lemma find_index_core:
  assumes "map core vs' = map core vs"
  shows "find_index (\<lambda>v. vid v = x) vs' = find_index (\<lambda>v. vid v = x) vs"
proof -
  have "find_index (\<lambda>v. vid v = x) ws = find_index (\<lambda>v. vid v = x) (map core ws)" for ws
    by (induction ws) (simp_all add: core_fields)
  from this [of vs'] this [of vs] assms show ?thesis
    by simp
qed

lemma dispatch_vehicle_eta:
  assumes "v_id \<noteq> []" "ph \<noteq> []" "phone_to_location s ph = Some el" "el \<noteq> []"
    and fi: "find_index (\<lambda>v. vid v = v_id) (vehicles s) = Some i"
    and e: "eta_of fp (vehicle_location (vehicles s ! i)) el = Inr x"
  shows "let r = dispatch_vehicle fp s (Some v_id) (Some ph); w = vehicles (snd r) ! i
     in fst r = Inr (x, w) \<and> vid w = v_id \<and> status w = ''EN_ROUTE'' \<and> \<not> available w
        \<and> eta w = py_str x @ '' mins''"
proof -
  have i: "i < length (vehicles s)" and v: "vid (vehicles s ! i) = v_id"
    using find_index_Some [OF fi] by simp_all
  from calculate_eta_of_Inr [OF e, of "vehicles s"] obtain vs'
    where c: "calculate_eta fp (vehicles s) (vehicle_location (vehicles s ! i)) el = Inr (x, vs')"
    by blast
  note r = calculate_eta_Inr [OF c]
  have k: "core (vs' ! i) = core (vehicles s ! i)"
    by (rule map_core_nth [OF r(2) i])
  have "vid (vs' ! i) = v_id"
    using core_eq_fields(1) [OF k] v by simp
  moreover have "vs'[i := w] ! i = w" for w
    using i r(4) by simp
  ultimately show ?thesis
    using dispatch_vehicle_found [OF assms(1-4) fi, of fp] c
    by (simp add: Let_def)
qed

text \<open>
  Claim C1, as stated, fails. On a freshly started system whose registry holds the
  vehicle at (13.3409, 77.1025), the ETA computation returns the ETA 1 and no distance;
  the distance it stores in the vehicle is the rounded 0.1, not 0.09. The dispatch to the
  seeded phone \<^verbatim>\<open>9876543210\<close> that follows answers "location not found" and the
  vehicle stays \<^verbatim>\<open>AVAILABLE\<close>, because \<^verbatim>\<open>dispatch_vehicle\<close> reads the live
  dictionary \<^verbatim>\<open>phone_to_location\<close>, which is empty until \<^verbatim>\<open>update_location\<close>
  writes it.
\<close>

theorem scenario_fresh_system_counterexample:
  "map_of phone_locations ''9876543210'' \<noteq> None
   \<and> calculate_eta no_error (vehicles scenario_state)
         (vehicle_location (vehicles scenario_state ! 0)) scenario_target
       = Inr (PyInt 1, [(load_vehicle scenario_vehicle)\<lparr>distance := Some (1 / 10)\<rparr>])
   \<and> dispatch_vehicle no_error
         (scenario_state\<lparr>vehicles := [(load_vehicle scenario_vehicle)\<lparr>distance := Some (1 / 10)\<rparr>]\<rparr>)
         (Some ''V1'') (Some ''9876543210'')
       = (Inl LocationNotFound,
          scenario_state\<lparr>vehicles := [(load_vehicle scenario_vehicle)\<lparr>distance := Some (1 / 10)\<rparr>]\<rparr>)
   \<and> status ((load_vehicle scenario_vehicle)\<lparr>distance := Some (1 / 10)\<rparr>) = ''AVAILABLE''
   \<and> available ((load_vehicle scenario_vehicle)\<lparr>distance := Some (1 / 10)\<rparr>)"
proof -
  have vs: "vehicles scenario_state = [load_vehicle scenario_vehicle]"
    by (simp add: scenario_state_def init_def load_vehicles_def)
  from scenario_eta [of no_error, OF no_error_bound] obtain dk
    where d: "distance_km no_error 13.3409 77.1025 13.3415 77.1030 = Inr dk"
      "eta_minutes dk = PyInt 1" "round1 dk = 1 / 10"
    by blast
  have l: "location (load_vehicle scenario_vehicle)
      = \<lparr>latitude = JNum 13.3409, longitude = JNum 77.1025\<rparr>"
    by (simp add: load_vehicle_def scenario_vehicle_def)
  have c: "calculate_eta no_error (vehicles scenario_state)
         (vehicle_location (vehicles scenario_state ! 0)) scenario_target
       = Inr (PyInt 1, [(load_vehicle scenario_vehicle)\<lparr>distance := Some (1 / 10)\<rparr>])"
    using calculate_eta_computed [OF scenario_gets(1,2,5,6) scenario_nonzero(1,2,3,4),
        of no_error "[load_vehicle scenario_vehicle]"] d
    by (simp add: vs l)
  have p: "map_of phone_locations ''9876543210'' \<noteq> None"
    by (simp add: phone_locations_def)
  have n: "dispatch_vehicle no_error
         (scenario_state\<lparr>vehicles := [(load_vehicle scenario_vehicle)\<lparr>distance := Some (1 / 10)\<rparr>]\<rparr>)
         (Some ''V1'') (Some ''9876543210'')
       = (Inl LocationNotFound,
          scenario_state\<lparr>vehicles := [(load_vehicle scenario_vehicle)\<lparr>distance := Some (1 / 10)\<rparr>]\<rparr>)"
    by (rule dispatch_vehicle_no_location) (simp_all add: scenario_state_def init_def)
  have a: "status ((load_vehicle scenario_vehicle)\<lparr>distance := Some (1 / 10)\<rparr>) = ''AVAILABLE''"
    "available ((load_vehicle scenario_vehicle)\<lparr>distance := Some (1 / 10)\<rparr>)"
    by (simp_all add: load_vehicle_def)
  show ?thesis
    by (intro conjI p c n a)
qed

text \<open>
  Claim C1, amended. Let the registry hold a vehicle V that is the first with its id,
  the id not empty, at (13.3409, 77.1025); let the target have the latitude 13.3415 and
  the longitude 77.1030; and let the rounding error on the haversine term of this pair
  be at most \<open>10\<^sup>-\<^sup>1\<^sup>4\<close>. Then the ETA computation from V to the target returns the
  clamped ETA 1 and no distance: the distance, between 0.085 and 0.087 km, is rounded to
  0.1 and stored in the \<^verbatim>\<open>distance\<close> field of the first vehicle at V's coordinates (V
  or a vehicle before it). A dispatch of V to the phone \<^verbatim>\<open>9876543210\<close> after that
  answers "location not found" and changes nothing while no live location is recorded
  for the phone (as on a freshly started system); when the target is recorded as the
  phone's live location it succeeds with ETA 1 and leaves V with
  \<^verbatim>\<open>status = EN_ROUTE\<close>, \<^verbatim>\<open>available = False\<close> and \<^verbatim>\<open>eta = "1 mins"\<close>.
\<close>

theorem scenario_eta_and_dispatch:
  assumes fi: "find_index (\<lambda>v. vid v = v_id) (vehicles s) = Some i"
    and loc: "location (vehicles s ! i) = \<lparr>latitude = JNum 13.3409, longitude = JNum 77.1025\<rparr>"
    and id: "v_id \<noteq> []"
    and t: "get2 target ''latitude'' ''lat'' = JNum 13.3415"
      "get2 target ''longitude'' ''lng'' = JNum 77.1030"
    and fp: "\<bar>fp 13.3409 77.1025 13.3415 77.1030\<bar> \<le> 1 / 10 ^ 14"
  shows "\<exists>vs' j dk.
      calculate_eta fp (vehicles s) (vehicle_location (vehicles s ! i)) target = Inr (PyInt 1, vs')
    \<and> distance_km fp 13.3409 77.1025 13.3415 77.1030 = Inr dk \<and> 0.085 < dk \<and> dk < 0.087
    \<and> j \<le> i \<and> location (vehicles s ! j) = location (vehicles s ! i)
    \<and> vs' = (vehicles s)[j := (vehicles s ! j)\<lparr>distance := Some (1 / 10)\<rparr>]
    \<and> (phone_to_location s ''9876543210'' = None \<longrightarrow>
         dispatch_vehicle fp (s\<lparr>vehicles := vs'\<rparr>) (Some v_id) (Some ''9876543210'')
           = (Inl LocationNotFound, s\<lparr>vehicles := vs'\<rparr>))
    \<and> (phone_to_location s ''9876543210'' = Some target \<longrightarrow>
         (let r = dispatch_vehicle fp (s\<lparr>vehicles := vs'\<rparr>) (Some v_id) (Some ''9876543210'');
              w = vehicles (snd r) ! i
          in fst r = Inr (PyInt 1, w) \<and> vid w = v_id \<and> status w = ''EN_ROUTE''
             \<and> \<not> available w \<and> eta w = ''1 mins''))"
proof -
  let ?vs = "vehicles s"
  let ?vl = "vehicle_location (?vs ! i)"
  let ?P = "\<lambda>v. latitude (location v) = JNum 13.3409 \<and> longitude (location v) = JNum 77.1025"
  have i: "i < length ?vs"
    using find_index_Some [OF fi] by simp
  have g: "get2 ?vl ''latitude'' ''lat'' = JNum 13.3409" "get2 ?vl ''longitude'' ''lng'' = JNum 77.1025"
    by (simp_all add: vehicle_location_def get2_def loc)
  from scenario_eta [of fp, OF fp] obtain dk
    where d: "distance_km fp 13.3409 77.1025 13.3415 77.1030 = Inr dk" "0.085 < dk" "dk < 0.087"
      "eta_minutes dk = PyInt 1" "round1 dk = 1 / 10"
    by blast
  have Pi: "?P (?vs ! i)"
    by (simp add: loc)
  then have "find_index ?P ?vs \<noteq> None"
    using i nth_mem [OF i] unfolding find_index_None by blast
  then obtain j where j: "find_index ?P ?vs = Some j"
    by blast
  from find_index_Some [OF j] have jf: "j < length ?vs" "?P (?vs ! j)" "\<forall>k<j. \<not> ?P (?vs ! k)"
    by blast+
  have ji: "j \<le> i"
  proof (rule ccontr)
    assume "\<not> j \<le> i"
    then have "i < j" by simp
    with jf(3) Pi show False by blast
  qed
  have lj: "location (?vs ! j) = location (?vs ! i)"
    using jf(2) loc by (cases "location (?vs ! j)") simp
  let ?vs' = "?vs[j := (?vs ! j)\<lparr>distance := Some (1 / 10)\<rparr>]"
  have "calculate_eta fp ?vs ?vl target
      = Inr (eta_minutes dk, ?vs[j := (?vs ! j)\<lparr>distance := Some (round1 dk)\<rparr>])"
    using calculate_eta_computed [OF g t scenario_nonzero(1,2,3,4), of fp ?vs] d(1) j
    by simp
  then have c: "calculate_eta fp ?vs ?vl target = Inr (PyInt 1, ?vs')"
    unfolding d(4,5) .
  have core: "map core ?vs' = map core ?vs"
    by (rule map_core_update) simp
  let ?s = "s\<lparr>vehicles := ?vs'\<rparr>"
  have ne: "target \<noteq> []"
    using t(1) by auto
  have fi': "find_index (\<lambda>v. vid v = v_id) (vehicles ?s) = Some i"
    using find_index_core [OF core, of v_id] fi by simp
  have vl': "vehicle_location (vehicles ?s ! i) = ?vl"
    using vehicle_location_core [OF map_core_nth [OF core i]] by simp
  have e: "eta_of fp (vehicle_location (vehicles ?s ! i)) target = Inr (PyInt 1)"
    unfolding vl' using eta_of_computed [OF g t scenario_nonzero(1,2,3,4), of fp] d by simp
  have none: "phone_to_location s ''9876543210'' = None \<longrightarrow>
      dispatch_vehicle fp ?s (Some v_id) (Some ''9876543210'') = (Inl LocationNotFound, ?s)"
    using dispatch_vehicle_no_location [OF id, of "''9876543210''" ?s fp] by simp
  have some: "phone_to_location s ''9876543210'' = Some target \<longrightarrow>
      (let r = dispatch_vehicle fp ?s (Some v_id) (Some ''9876543210'');
           w = vehicles (snd r) ! i
       in fst r = Inr (PyInt 1, w) \<and> vid w = v_id \<and> status w = ''EN_ROUTE''
          \<and> \<not> available w \<and> eta w = ''1 mins'')"
  proof
    assume p: "phone_to_location s ''9876543210'' = Some target"
    then have p': "phone_to_location ?s ''9876543210'' = Some target"
      by simp
    have n: "''9876543210'' \<noteq> []" by simp
    from dispatch_vehicle_eta [OF id n p' ne fi' e]
    show "let r = dispatch_vehicle fp ?s (Some v_id) (Some ''9876543210'');
           w = vehicles (snd r) ! i
       in fst r = Inr (PyInt 1, w) \<and> vid w = v_id \<and> status w = ''EN_ROUTE''
          \<and> \<not> available w \<and> eta w = ''1 mins''"
      by (simp add: Let_def str_int_small)
  qed
  show ?thesis
    by (rule exI [of _ ?vs'], rule exI [of _ j], rule exI [of _ dk])
      (intro conjI c d(1,2,3) ji lj refl none some)
qed

text \<open>
  The scenario on the freshly started system, before and after the live location is
  recorded.
\<close>

theorem scenario_eta_and_dispatch_witness:
  "calculate_eta no_error (vehicles scenario_state)
         (vehicle_location (vehicles scenario_state ! 0)) scenario_target
     = Inr (PyInt 1, [(load_vehicle scenario_vehicle)\<lparr>distance := Some (1 / 10)\<rparr>])
   \<and> dispatch_vehicle no_error
         (scenario_state\<lparr>vehicles := [(load_vehicle scenario_vehicle)\<lparr>distance := Some (1 / 10)\<rparr>]\<rparr>)
         (Some ''V1'') (Some ''9876543210'')
       = (Inl LocationNotFound,
          scenario_state\<lparr>vehicles := [(load_vehicle scenario_vehicle)\<lparr>distance := Some (1 / 10)\<rparr>]\<rparr>)
   \<and> status (vehicles (snd (dispatch_vehicle no_error
         ((snd (update_location scenario_state (Some ''9876543210'') (Some scenario_target)))
            \<lparr>vehicles := [(load_vehicle scenario_vehicle)\<lparr>distance := Some (1 / 10)\<rparr>]\<rparr>)
         (Some ''V1'') (Some ''9876543210''))) ! 0) = ''EN_ROUTE''
   \<and> eta (vehicles (snd (dispatch_vehicle no_error
         ((snd (update_location scenario_state (Some ''9876543210'') (Some scenario_target)))
            \<lparr>vehicles := [(load_vehicle scenario_vehicle)\<lparr>distance := Some (1 / 10)\<rparr>]\<rparr>)
         (Some ''V1'') (Some ''9876543210''))) ! 0) = ''1 mins''"
proof -
  let ?s0 = "scenario_state"
  let ?s1 = "snd (update_location scenario_state (Some ''9876543210'') (Some scenario_target))"
  let ?w = "(load_vehicle scenario_vehicle)\<lparr>distance := Some (1 / 10)\<rparr>"
  have v0: "vehicles ?s0 = [load_vehicle scenario_vehicle]"
    "vehicles ?s1 = [load_vehicle scenario_vehicle]"
    by (simp_all add: scenario_state_def init_def load_vehicles_def update_location_def
        update_phone_location_def scenario_target_def)
  have p: "phone_to_location ?s0 ''9876543210'' = None"
    "phone_to_location ?s1 ''9876543210'' = Some scenario_target"
    by (simp_all add: scenario_state_def init_def update_location_def update_phone_location_def
        scenario_target_def)
  have f: "find_index (\<lambda>v. vid v = ''V1'') (vehicles ?s0) = Some 0"
    "find_index (\<lambda>v. vid v = ''V1'') (vehicles ?s1) = Some 0"
    unfolding v0 by (simp_all add: load_vehicle_def scenario_vehicle_def)
  have l: "location (vehicles ?s0 ! 0) = \<lparr>latitude = JNum 13.3409, longitude = JNum 77.1025\<rparr>"
    "location (vehicles ?s1 ! 0) = \<lparr>latitude = JNum 13.3409, longitude = JNum 77.1025\<rparr>"
    unfolding v0 by (simp_all add: load_vehicle_def scenario_vehicle_def)
  have n: "''V1'' \<noteq> []" by simp
  from scenario_eta_and_dispatch [OF f(1) l(1) n scenario_gets(5,6), of no_error, OF no_error_bound]
  obtain vs0 j0 where a: "calculate_eta no_error (vehicles ?s0)
        (vehicle_location (vehicles ?s0 ! 0)) scenario_target = Inr (PyInt 1, vs0)"
      "j0 \<le> 0" "vs0 = (vehicles ?s0)[j0 := (vehicles ?s0 ! j0)\<lparr>distance := Some (1 / 10)\<rparr>]"
      "dispatch_vehicle no_error (?s0\<lparr>vehicles := vs0\<rparr>) (Some ''V1'') (Some ''9876543210'')
           = (Inl LocationNotFound, ?s0\<lparr>vehicles := vs0\<rparr>)"
    using p(1) by blast
  from scenario_eta_and_dispatch [OF f(2) l(2) n scenario_gets(5,6), of no_error, OF no_error_bound]
  obtain vs1 j1 where b: "j1 \<le> 0"
      "vs1 = (vehicles ?s1)[j1 := (vehicles ?s1 ! j1)\<lparr>distance := Some (1 / 10)\<rparr>]"
      "let r = dispatch_vehicle no_error (?s1\<lparr>vehicles := vs1\<rparr>) (Some ''V1'') (Some ''9876543210'');
           w = vehicles (snd r) ! 0
       in fst r = Inr (PyInt 1, w) \<and> vid w = ''V1'' \<and> status w = ''EN_ROUTE''
          \<and> \<not> available w \<and> eta w = ''1 mins''"
    using p(2) by blast
  have vs0: "vs0 = [?w]"
    using a(2,3) by (simp add: v0)
  have vs1: "vs1 = [?w]"
    using b(1,2) by (simp add: v0)
  from a(1,4) b(3) show ?thesis
    unfolding vs0 vs1 by (simp add: Let_def)
qed

section \<open>Zero ETAs, the distance field and the location refresh\<close>

text \<open>
  Claim C2 on the code. A dispatch towards the vehicle's own position stores
  \<^verbatim>\<open>"0.0 mins"\<close>, one towards a location on the equator stores \<^verbatim>\<open>"0 mins"\<close>; the
  batch computation and the location resolution store \<^verbatim>\<open>"N/A"\<close> for the same zero ETA,
  the text of the specification. (Between a point and itself the doubles give the term
  0 with no error.)
\<close>

theorem dispatch_writes_zero_mins:
  "eta (vehicles (snd (dispatch_vehicle no_error
       (snd (update_location scenario_state (Some ''9876543210'')
              (Some [(''lat'', JNum 13.3409), (''lng'', JNum 77.1025)])))
       (Some ''V1'') (Some ''9876543210''))) ! 0) = ''0.0 mins''
   \<and> eta (vehicles (snd (dispatch_vehicle no_error
       (snd (update_location scenario_state (Some ''9876543210'')
              (Some [(''lat'', JNum 0), (''lng'', JNum 77.1025)])))
       (Some ''V1'') (Some ''9876543210''))) ! 0) = ''0 mins''
   \<and> eta (vehicles (snd (calculate_etas no_error scenario_state
       (Some [(''lat'', JNum 13.3409), (''lng'', JNum 77.1025)]) [''V1''])) ! 0) = ''N/A''
   \<and> eta (vehicles (snd (get_location no_error scenario_state ''9876543210'')) ! 0) = ''N/A''
   \<and> spec_eta_text (PyFloat 0) = ''N/A'' \<and> spec_eta_text (PyInt 0) = ''N/A''"
proof -
  let ?v = "load_vehicle scenario_vehicle"
  let ?same = "[(''lat'', JNum 13.3409), (''lng'', JNum 77.1025)]"
  let ?zero = "[(''lat'', JNum 0), (''lng'', JNum 77.1025)]"
  have g: "get2 ?same ''latitude'' ''lat'' = JNum 13.3409" "get2 ?same ''longitude'' ''lng'' = JNum 77.1025"
    by (simp_all add: get2_def)
  have l: "location ?v = \<lparr>latitude = JNum 13.3409, longitude = JNum 77.1025\<rparr>"
    by (simp add: load_vehicle_def scenario_vehicle_def)
  have e0: "eta_minutes 0 = PyFloat 0"
    by (simp add: eta_minutes_def)
  have c1: "calculate_eta no_error [?v] (vehicle_location ?v) ?same
      = Inr (PyFloat 0, [?v\<lparr>distance := Some 0\<rparr>])"
    using calculate_eta_computed [OF scenario_gets(1,2) g scenario_nonzero(1,2,1,2), of no_error "[?v]"]
    by (simp add: distance_km_same e0 l)
  have c2: "calculate_eta no_error [?v] (vehicle_location ?v) ?zero = Inr (PyInt 0, [?v])"
    by (simp add: calculate_eta_def Let_def get2_def vehicle_location_def)
  have vs: "vehicles scenario_state = [?v]"
    by (simp add: scenario_state_def init_def load_vehicles_def)
  have d1: "eta (vehicles (snd (dispatch_vehicle no_error
       (snd (update_location scenario_state (Some ''9876543210'') (Some ?same)))
       (Some ''V1'') (Some ''9876543210''))) ! 0) = ''0.0 mins''"
    using c1
    by (simp add: dispatch_vehicle_def update_location_def update_phone_location_def
        get_phone_location_def vs load_vehicle_def scenario_vehicle_def
        str_float1_def str_nat.simps digit_def)
  have d2: "eta (vehicles (snd (dispatch_vehicle no_error
       (snd (update_location scenario_state (Some ''9876543210'') (Some ?zero)))
       (Some ''V1'') (Some ''9876543210''))) ! 0) = ''0 mins''"
    using c2
    by (simp add: dispatch_vehicle_def update_location_def update_phone_location_def
        get_phone_location_def vs load_vehicle_def scenario_vehicle_def str_int_small)
  have d3: "eta (vehicles (snd (calculate_etas no_error scenario_state (Some ?same) [''V1''])) ! 0) = ''N/A''"
    using c1
    by (simp add: calculate_etas_def vs eta_text_def load_vehicle_def scenario_vehicle_def Let_def)
  have d4: "eta (vehicles (snd (get_location no_error scenario_state ''9876543210'')) ! 0) = ''N/A''"
    using c1
    by (simp add: get_location_def get_location_from_phone_def phone_locations_def
        vs eta_text_def)
  have d5: "spec_eta_text (PyFloat 0) = ''N/A''" "spec_eta_text (PyInt 0) = ''N/A''"
    by (simp_all add: spec_eta_text_def)
  show ?thesis
    by (intro conjI d1 d2 d3 d4 d5)
qed

text \<open>
  The ETA request for the second of two vehicles at the same coordinates writes the
  distance of the first; a request with coordinates of no vehicle writes nothing; and
  the request that raises writes nothing.
\<close>

theorem distance_goes_to_first_coordinate_match_witness:
  "calculate_eta no_error [load_vehicle scenario_vehicle, twin_vehicle]
       (vehicle_location twin_vehicle) scenario_target
     = Inr (PyInt 1, [(load_vehicle scenario_vehicle)\<lparr>distance := Some (1 / 10)\<rparr>, twin_vehicle])
   \<and> calculate_eta no_error [antipode_vehicle] (vehicle_location twin_vehicle) scenario_target
     = Inr (PyInt 1, [antipode_vehicle])
   \<and> calculate_eta one_ulp [antipode_vehicle] (vehicle_location antipode_vehicle) antipode_target
     = Inl MathDomainError"
proof -
  from scenario_eta [of no_error, OF no_error_bound] obtain dk
    where d: "distance_km no_error 13.3409 77.1025 13.3415 77.1030 = Inr dk"
      "eta_minutes dk = PyInt 1" "round1 dk = 1 / 10"
    by blast
  have l: "location (load_vehicle scenario_vehicle) = \<lparr>latitude = JNum 13.3409, longitude = JNum 77.1025\<rparr>"
    "location twin_vehicle = \<lparr>latitude = JNum 13.3409, longitude = JNum 77.1025\<rparr>"
    "location antipode_vehicle = \<lparr>latitude = JNum 8, longitude = JNum 1\<rparr>"
    by (simp_all add: twin_vehicle_def antipode_vehicle_def load_vehicle_def scenario_vehicle_def)
  note t1 = distance_goes_to_first_coordinate_match [OF scenario_gets(3,4,5,6) scenario_nonzero(1,2,3,4),
      of no_error "[load_vehicle scenario_vehicle, twin_vehicle]",
      THEN conjunct2, rule_format, OF d(1)]
  then obtain vs1 where a: "calculate_eta no_error [load_vehicle scenario_vehicle, twin_vehicle]
        (vehicle_location twin_vehicle) scenario_target = Inr (eta_minutes dk, vs1)"
      "\<forall>i<length [load_vehicle scenario_vehicle, twin_vehicle].
          latitude (location ([load_vehicle scenario_vehicle, twin_vehicle] ! i)) = JNum 13.3409
          \<and> longitude (location ([load_vehicle scenario_vehicle, twin_vehicle] ! i)) = JNum 77.1025
          \<and> (\<forall>j<i. \<not> (latitude (location ([load_vehicle scenario_vehicle, twin_vehicle] ! j)) = JNum 13.3409
                       \<and> longitude (location ([load_vehicle scenario_vehicle, twin_vehicle] ! j)) = JNum 77.1025))
          \<longrightarrow> vs1 = [load_vehicle scenario_vehicle, twin_vehicle]
                [i := ([load_vehicle scenario_vehicle, twin_vehicle] ! i)\<lparr>distance := Some (round1 dk)\<rparr>]"
    by blast
  from a(2) [rule_format, of 0] have "vs1 = [(load_vehicle scenario_vehicle)\<lparr>distance := Some (round1 dk)\<rparr>, twin_vehicle]"
    by (simp add: l)
  with a(1) have r1: "calculate_eta no_error [load_vehicle scenario_vehicle, twin_vehicle]
       (vehicle_location twin_vehicle) scenario_target
     = Inr (PyInt 1, [(load_vehicle scenario_vehicle)\<lparr>distance := Some (1 / 10)\<rparr>, twin_vehicle])"
    unfolding d(2,3) by simp
  note t2 = distance_goes_to_first_coordinate_match [OF scenario_gets(3,4,5,6) scenario_nonzero(1,2,3,4),
      of no_error "[antipode_vehicle]", THEN conjunct2, rule_format, OF d(1)]
  then obtain vs2 where b: "calculate_eta no_error [antipode_vehicle]
        (vehicle_location twin_vehicle) scenario_target = Inr (eta_minutes dk, vs2)"
      "(\<forall>v\<in>set [antipode_vehicle]. \<not> (latitude (location v) = JNum 13.3409
             \<and> longitude (location v) = JNum 77.1025)) \<longrightarrow> vs2 = [antipode_vehicle]"
    by blast
  from b(2) have "vs2 = [antipode_vehicle]"
    by (simp add: l)
  with b(1) have r2: "calculate_eta no_error [antipode_vehicle] (vehicle_location twin_vehicle)
      scenario_target = Inr (PyInt 1, [antipode_vehicle])"
    unfolding d(2) by simp
  have r3: "calculate_eta one_ulp [antipode_vehicle] (vehicle_location antipode_vehicle)
      antipode_target = Inl MathDomainError"
    by (rule distance_goes_to_first_coordinate_match [OF scenario_gets(7,8,9,10) scenario_nonzero(5,6,7,8),
      of one_ulp "[antipode_vehicle]", THEN conjunct1, rule_format, OF antipode_raises])
  show ?thesis
    by (intro conjI r1 r2 r3)
qed

lemma seeded_location:
  assumes "map_of phone_locations phone_number = Some l"
  shows "get_location_from_phone phone_number
    = Some \<lparr>ld_location = [(''lat'', JNum (lat l)), (''lng'', JNum (lng l))], ld_address = address l\<rparr>"
  using assms by (simp add: get_location_from_phone_def)

lemma get_location_unfold:
  assumes "map_of phone_locations phone_number = Some l"
  shows "vehicles (snd (get_location fp s phone_number))
      = snd (refresh_vehicles fp [(''lat'', JNum (lat l)), (''lng'', JNum (lng l))]
               [0 ..< length (vehicles s)] (vehicles s))"
    and "fst (get_location fp s phone_number)
      = (case fst (refresh_vehicles fp [(''lat'', JNum (lat l)), (''lng'', JNum (lng l))]
               [0 ..< length (vehicles s)] (vehicles s)) of
           None \<Rightarrow> Inr \<lparr>ld_location = [(''lat'', JNum (lat l)), (''lng'', JNum (lng l))],
                        ld_address = address l\<rparr>
         | Some e \<Rightarrow> Inl e)"
  by (simp_all add: get_location_def seeded_location [OF assms] split: prod.splits option.splits)

text \<open>
  Claim C7 on the code. For a phone of the seeded map, \<^verbatim>\<open>get_location\<close> changes
  nothing but the \<^verbatim>\<open>eta\<close> and \<^verbatim>\<open>distance\<close> fields. When no ETA computation
  raises, it returns the phone's location record and every vehicle has the text of its
  ETA to that location. When the computation for a vehicle raises (the double of the
  haversine term is outside the unit interval), the handler answers with the error: the
  vehicles before the first such vehicle have their new text, and that vehicle and all
  after it keep the \<^verbatim>\<open>eta\<close> they had.
\<close>

theorem get_location_refreshes_until_raise:
  assumes "map_of phone_locations phone_number = Some l"
  shows "let loc = [(''lat'', JNum (lat l)), (''lng'', JNum (lng l))];
             vs = vehicles s;
             r = get_location fp s phone_number;
             vs' = vehicles (snd r)
         in map core vs' = map core vs
          \<and> ((\<forall>i<length vs. \<exists>x. eta_of fp (vehicle_location (vs ! i)) loc = Inr x) \<longrightarrow>
               fst r = Inr \<lparr>ld_location = loc, ld_address = address l\<rparr>
               \<and> (\<forall>i<length vs.
                    eta (vs' ! i) = eta_text (projr (eta_of fp (vehicle_location (vs ! i)) loc))))
          \<and> (\<forall>k<length vs.
               (\<forall>j<k. \<exists>x. eta_of fp (vehicle_location (vs ! j)) loc = Inr x)
               \<and> (\<exists>e. eta_of fp (vehicle_location (vs ! k)) loc = Inl e) \<longrightarrow>
               fst r = Inl MathDomainError
               \<and> (\<forall>j<k. eta (vs' ! j)
                          = eta_text (projr (eta_of fp (vehicle_location (vs ! j)) loc)))
               \<and> (\<forall>j<length vs. k \<le> j \<longrightarrow> eta (vs' ! j) = eta (vs ! j)))"
proof -
  define loc where "loc = [(''lat'', JNum (lat l)), (''lng'', JNum (lng l))]"
  define vs where "vs = vehicles s"
  define m where "m = (\<lambda>i. projr (eta_of fp (vehicle_location (vs ! i)) loc))"
  define r where "r = get_location fp s phone_number"
  define vs' where "vs' = vehicles (snd r)"
  note u = get_location_unfold [OF assms, of fp s, folded loc_def vs_def r_def]
  have core: "map core vs' = map core vs"
    unfolding vs'_def vs_def r_def by (rule get_location_core)
  have ok: "fst r = Inr \<lparr>ld_location = loc, ld_address = address l\<rparr>
      \<and> (\<forall>i<length vs. eta (vs' ! i) = eta_text (m i))"
    if a: "\<forall>i<length vs. \<exists>x. eta_of fp (vehicle_location (vs ! i)) loc = Inr x"
  proof -
    have "\<forall>i\<in>set [0 ..< length vs]. i < length vs
        \<and> eta_of fp (vehicle_location (vs ! i)) loc = Inr (m i)"
      using a by (auto simp: m_def)
    from refresh_vehicles_ok [OF refl this]
    have "fst (refresh_vehicles fp loc [0 ..< length vs] vs) = None"
      "\<forall>i\<in>set [0 ..< length vs].
         eta (snd (refresh_vehicles fp loc [0 ..< length vs] vs) ! i) = eta_text (m i)"
      by simp_all
    then show ?thesis
      by (simp add: u vs'_def)
  qed
  have raise: "fst r = Inl MathDomainError
      \<and> (\<forall>j<k. eta (vs' ! j) = eta_text (m j))
      \<and> (\<forall>j<length vs. k \<le> j \<longrightarrow> eta (vs' ! j) = eta (vs ! j))"
    if k: "k < length vs"
      and a: "\<forall>j<k. \<exists>x. eta_of fp (vehicle_location (vs ! j)) loc = Inr x"
      and b: "\<exists>e. eta_of fp (vehicle_location (vs ! k)) loc = Inl e" for k
  proof -
    from b obtain e where e: "eta_of fp (vehicle_location (vs ! k)) loc = Inl e"
      by blast
    have em: "e = MathDomainError"
      by (rule eta_of_Inl [OF e])
    have pre: "\<forall>i\<in>set [0 ..< k]. i < length vs
        \<and> eta_of fp (vehicle_location (vs ! i)) loc = Inr (m i)"
      using a k by (auto simp: m_def)
    have split: "[0 ..< length vs] = [0 ..< k] @ k # [Suc k ..< length vs]"
      using k by (metis le0 upt_add_eq_append upt_conv_Cons le_add_diff_inverse less_imp_le_nat plus_nat.add_0)
    have R: "refresh_vehicles fp loc [0 ..< length vs] vs
        = (Some e, snd (refresh_vehicles fp loc [0 ..< k] vs))"
      unfolding split by (rule refresh_vehicles_raise [OF pre k e])
    have v: "vs' = snd (refresh_vehicles fp loc [0 ..< k] vs)"
      by (simp add: vs'_def u R)
    have f: "fst r = Inl MathDomainError"
      by (simp add: u R em)
    from refresh_vehicles_ok [OF refl pre]
    have before: "\<forall>j<k. eta (vs' ! j) = eta_text (m j)"
      by (simp add: v)
    have after: "\<forall>j<length vs. k \<le> j \<longrightarrow> eta (vs' ! j) = eta (vs ! j)"
    proof (intro allI impI)
      fix j assume j: "j < length vs" "k \<le> j"
      then have "j \<notin> set [0 ..< k]" by simp
      from refresh_vehicles_other [OF this j(1), of fp loc] show "eta (vs' ! j) = eta (vs ! j)"
        by (simp add: v)
    qed
    from f before after show ?thesis by blast
  qed
  have "map core vs' = map core vs
          \<and> ((\<forall>i<length vs. \<exists>x. eta_of fp (vehicle_location (vs ! i)) loc = Inr x) \<longrightarrow>
               fst r = Inr \<lparr>ld_location = loc, ld_address = address l\<rparr>
               \<and> (\<forall>i<length vs. eta (vs' ! i) = eta_text (m i)))
          \<and> (\<forall>k<length vs.
               (\<forall>j<k. \<exists>x. eta_of fp (vehicle_location (vs ! j)) loc = Inr x)
               \<and> (\<exists>e. eta_of fp (vehicle_location (vs ! k)) loc = Inl e) \<longrightarrow>
               fst r = Inl MathDomainError
               \<and> (\<forall>j<k. eta (vs' ! j) = eta_text (m j))
               \<and> (\<forall>j<length vs. k \<le> j \<longrightarrow> eta (vs' ! j) = eta (vs ! j)))"
    using core ok raise by blast
  then show ?thesis
    unfolding Let_def m_def loc_def vs_def vs'_def r_def .
qed

lemma near_antipode_gets:
  "get2 (vehicle_location near_antipode_vehicle) ''latitude'' ''lat'' = JNum (- 13.341500213)"
  "get2 (vehicle_location near_antipode_vehicle) ''longitude'' ''lng'' = JNum (- 102.8970003)"
  by (simp_all add: get2_def vehicle_location_def near_antipode_vehicle_def)

lemma near_antipode_raises:
  "eta_of near_antipode_rounding (vehicle_location near_antipode_vehicle) scenario_target
     = Inl MathDomainError"
proof -
  have n: "(- 13.341500213::real) \<noteq> 0" "(- 102.8970003::real) \<noteq> 0"
    by simp_all
  have "computed_term near_antipode_rounding (- 13.341500213) (- 102.8970003) 13.3415 77.1030
      = 1 + 1 / 2 ^ 52"
    by (simp add: computed_term_def near_antipode_rounding_def)
  then have "distance_km near_antipode_rounding (- 13.341500213) (- 102.8970003) 13.3415 77.1030
      = Inl MathDomainError"
    unfolding distance_km_unfold by simp
  with eta_of_computed [OF near_antipode_gets scenario_gets(5,6) n scenario_nonzero(3,4),
      of near_antipode_rounding]
  show ?thesis by simp
qed

lemma scenario_eta_of:
  assumes "\<bar>fp 13.3409 77.1025 13.3415 77.1030\<bar> \<le> 1 / 10 ^ 14"
  shows "eta_of fp (vehicle_location (load_vehicle scenario_vehicle)) scenario_target = Inr (PyInt 1)"
    "eta_of fp (vehicle_location twin_vehicle) scenario_target = Inr (PyInt 1)"
proof -
  from scenario_eta [of fp, OF assms] obtain dk
    where d: "distance_km fp 13.3409 77.1025 13.3415 77.1030 = Inr dk" "eta_minutes dk = PyInt 1"
    by blast
  show "eta_of fp (vehicle_location (load_vehicle scenario_vehicle)) scenario_target = Inr (PyInt 1)"
    using eta_of_computed [OF scenario_gets(1,2,5,6) scenario_nonzero(1,2,3,4), of fp] d by simp
  show "eta_of fp (vehicle_location twin_vehicle) scenario_target = Inr (PyInt 1)"
    using eta_of_computed [OF scenario_gets(3,4,5,6) scenario_nonzero(1,2,3,4), of fp] d by simp
qed

lemma near_antipode_rounding_bound:
  "\<bar>near_antipode_rounding 13.3409 77.1025 13.3415 77.1030\<bar> \<le> 1 / 10 ^ 14"
  by (simp add: near_antipode_rounding_def)

lemma eta_text_one: "eta_text (PyInt 1) = ''1 mins''"
  by (simp add: eta_text_def str_int_small)

text \<open>
  The registry with the scenario vehicle, the vehicle near the antipode of the phone
  \<^verbatim>\<open>9876543211\<close> and a third vehicle: the first vehicle is refreshed, the answer is the
  error, and the two others keep \<^verbatim>\<open>"N/A"\<close>. On the scenario registry nothing raises,
  the record is returned and the vehicle is refreshed.
\<close>

theorem get_location_refreshes_until_raise_witness:
  "fst (get_location near_antipode_rounding
          \<lparr>vehicles = [load_vehicle scenario_vehicle, near_antipode_vehicle, twin_vehicle],
           vehicle_locations = Map.empty, phone_to_location = Map.empty\<rparr> ''9876543211'')
     = Inl MathDomainError
   \<and> eta (vehicles (snd (get_location near_antipode_rounding
          \<lparr>vehicles = [load_vehicle scenario_vehicle, near_antipode_vehicle, twin_vehicle],
           vehicle_locations = Map.empty, phone_to_location = Map.empty\<rparr> ''9876543211'')) ! 0)
     = ''1 mins''
   \<and> eta (vehicles (snd (get_location near_antipode_rounding
          \<lparr>vehicles = [load_vehicle scenario_vehicle, near_antipode_vehicle, twin_vehicle],
           vehicle_locations = Map.empty, phone_to_location = Map.empty\<rparr> ''9876543211'')) ! 1)
     = ''N/A''
   \<and> eta (vehicles (snd (get_location near_antipode_rounding
          \<lparr>vehicles = [load_vehicle scenario_vehicle, near_antipode_vehicle, twin_vehicle],
           vehicle_locations = Map.empty, phone_to_location = Map.empty\<rparr> ''9876543211'')) ! 2)
     = ''N/A''
   \<and> fst (get_location no_error scenario_state ''9876543211'')
     = Inr \<lparr>ld_location = [(''lat'', JNum 13.3415), (''lng'', JNum 77.1030)],
            ld_address = ''Tumkur Bus Stand''\<rparr>
   \<and> eta (vehicles (snd (get_location no_error scenario_state ''9876543211'')) ! 0) = ''1 mins''"
proof -
  let ?s = "\<lparr>vehicles = [load_vehicle scenario_vehicle, near_antipode_vehicle, twin_vehicle],
           vehicle_locations = Map.empty, phone_to_location = Map.empty\<rparr>"
  let ?l = "\<lparr>lat = 13.3415, lng = 77.1030, address = ''Tumkur Bus Stand''\<rparr>"
  let ?r = "get_location near_antipode_rounding ?s ''9876543211''"
  have m: "map_of phone_locations ''9876543211'' = Some ?l"
    by (simp add: phone_locations_def)
  have loc: "[(''lat'', JNum (lat ?l)), (''lng'', JNum (lng ?l))] = scenario_target"
    by (simp add: scenario_target_def)
  have e0: "eta_of near_antipode_rounding (vehicle_location (load_vehicle scenario_vehicle))
      scenario_target = Inr (PyInt 1)"
    by (rule scenario_eta_of(1) [of near_antipode_rounding, OF near_antipode_rounding_bound])
  have old: "eta near_antipode_vehicle = ''N/A''" "eta twin_vehicle = ''N/A''"
    by (simp_all add: near_antipode_vehicle_def twin_vehicle_def load_vehicle_def)
  note T = get_location_refreshes_until_raise [OF m, of ?s near_antipode_rounding,
      unfolded Let_def loc, THEN conjunct2, THEN conjunct2, THEN spec, of 1]
  have p1: "1 < length (vehicles ?s)"
    by simp
  have p2: "(\<forall>j<1. \<exists>x. eta_of near_antipode_rounding (vehicle_location (vehicles ?s ! j))
        scenario_target = Inr x)
      \<and> (\<exists>e. eta_of near_antipode_rounding (vehicle_location (vehicles ?s ! 1))
        scenario_target = Inl e)"
    using e0 near_antipode_raises by simp
  note C = T [THEN mp, OF p1, THEN mp, OF p2]
  have a: "fst ?r = Inl MathDomainError"
    using C by blast
  have "eta (vehicles (snd ?r) ! 0) = eta_text (projr (eta_of near_antipode_rounding
      (vehicle_location (vehicles ?s ! 0)) scenario_target))"
    using C [THEN conjunct2, THEN conjunct1, THEN spec, of 0] by simp
  then have b: "eta (vehicles (snd ?r) ! 0) = ''1 mins''"
    using e0 by (simp add: eta_text_one)
  have c: "eta (vehicles (snd ?r) ! 1) = ''N/A''"
    using C [THEN conjunct2, THEN conjunct2, THEN spec, of 1] old by simp
  have d: "eta (vehicles (snd ?r) ! 2) = ''N/A''"
    using C [THEN conjunct2, THEN conjunct2, THEN spec, of 2] old by simp
  have vs: "vehicles scenario_state = [load_vehicle scenario_vehicle]"
    by (simp add: scenario_state_def init_def load_vehicles_def)
  have e1: "eta_of no_error (vehicle_location (load_vehicle scenario_vehicle))
      scenario_target = Inr (PyInt 1)"
    by (rule scenario_eta_of(1) [of no_error, OF no_error_bound])
  note U = get_location_refreshes_until_raise [OF m, of scenario_state no_error,
      unfolded Let_def loc, THEN conjunct2, THEN conjunct1]
  have q: "\<forall>i<length (vehicles scenario_state).
      \<exists>x. eta_of no_error (vehicle_location (vehicles scenario_state ! i)) scenario_target = Inr x"
    using e1 by (simp add: vs)
  note D = U [THEN mp, OF q]
  have e: "fst (get_location no_error scenario_state ''9876543211'')
     = Inr \<lparr>ld_location = [(''lat'', JNum 13.3415), (''lng'', JNum 77.1030)],
            ld_address = ''Tumkur Bus Stand''\<rparr>"
    using D by (simp add: scenario_target_def)
  have f: "eta (vehicles (snd (get_location no_error scenario_state ''9876543211'')) ! 0) = ''1 mins''"
    using D [THEN conjunct2, THEN spec, of 0] e1 by (simp add: vs eta_text_one)
  show ?thesis
    by (intro conjI a b c d e f)
qed

section \<open>Listing vehicles\<close>

lemma ascii_upper: "\<forall>c\<in>set t. ascii c \<Longrightarrow> upper uc t = map upper_char t"
  by (induction t) (simp_all add: upper_def)

text \<open>
  Claim C8, as stated, fails twice: an available vehicle whose stored type is
  \<^verbatim>\<open>Ambulance\<close> matches the filter \<^verbatim>\<open>ambulance\<close> without regard to case and is not
  listed, since only the filter is upper-cased; and the empty filter string lists every
  vehicle, the unavailable ones too.
\<close>

theorem get_vehicles_counterexample:
  "\<forall>uc. matches_ci uc (vtype lower_typed_vehicle) ''ambulance'' \<and> available lower_typed_vehicle
     \<and> get_vehicles uc \<lparr>vehicles = [lower_typed_vehicle], vehicle_locations = Map.empty,
          phone_to_location = Map.empty\<rparr> (Some ''ambulance'') = []
     \<and> \<not> available dispatched_vehicle
     \<and> get_vehicles uc \<lparr>vehicles = [dispatched_vehicle], vehicle_locations = Map.empty,
          phone_to_location = Map.empty\<rparr> (Some '''') = [dispatched_vehicle]"
  by (simp add: get_vehicles_def matches_ci_def upper_def upper_char_def ascii_def
      lower_typed_vehicle_def dispatched_vehicle_def load_vehicle_def scenario_vehicle_def)

text \<open>
  Claim C8, amended. For a filter whose upper-casing is not empty, \<^verbatim>\<open>get_vehicles\<close>
  lists exactly the vehicles whose stored type equals the upper-cased filter and that
  are available (the empty list when there is none). For a non-empty filter of ASCII
  characters the upper-casing replaces the letters a to z by A to Z; and where every
  stored type is its own upper-casing, the listing is the case-insensitive match. With no
  filter or the empty filter it lists all vehicles, whatever their availability.
\<close>

theorem get_vehicles_filter:
  "(upper uc t \<noteq> [] \<longrightarrow>
      get_vehicles uc s (Some t) = filter (\<lambda>v. vtype v = upper uc t \<and> available v) (vehicles s))
   \<and> (t \<noteq> [] \<and> (\<forall>c\<in>set t. ascii c) \<longrightarrow>
      get_vehicles uc s (Some t)
        = filter (\<lambda>v. vtype v = map upper_char t \<and> available v) (vehicles s))
   \<and> (t \<noteq> [] \<and> (\<forall>c\<in>set t. ascii c) \<and> (\<forall>v\<in>set (vehicles s). vtype v = upper uc (vtype v)) \<longrightarrow>
      get_vehicles uc s (Some t)
        = filter (\<lambda>v. matches_ci uc (vtype v) t \<and> available v) (vehicles s))
   \<and> get_vehicles uc s None = vehicles s
   \<and> get_vehicles uc s (Some []) = vehicles s"
proof -
  have g: "get_vehicles uc s (Some t)
      = filter (\<lambda>v. vtype v = upper uc t \<and> available v) (vehicles s)"
    if "upper uc t \<noteq> []"
    using that by (simp add: get_vehicles_def)
  have a: "get_vehicles uc s (Some t)
      = filter (\<lambda>v. vtype v = map upper_char t \<and> available v) (vehicles s)"
    if "t \<noteq> [] \<and> (\<forall>c\<in>set t. ascii c)"
  proof -
    have u: "upper uc t = map upper_char t"
      using that by (simp add: ascii_upper)
    then have "upper uc t \<noteq> []"
      using that by simp
    from g [OF this] show ?thesis
      by (simp only: u)
  qed
  have b: "get_vehicles uc s (Some t)
      = filter (\<lambda>v. matches_ci uc (vtype v) t \<and> available v) (vehicles s)"
    if h: "t \<noteq> [] \<and> (\<forall>c\<in>set t. ascii c) \<and> (\<forall>v\<in>set (vehicles s). vtype v = upper uc (vtype v))"
  proof -
    have u: "upper uc t = map upper_char t"
      using h by (simp add: ascii_upper)
    then have "upper uc t \<noteq> []"
      using h by simp
    note g [OF this]
    also have "filter (\<lambda>v. vtype v = upper uc t \<and> available v) (vehicles s)
        = filter (\<lambda>v. matches_ci uc (vtype v) t \<and> available v) (vehicles s)"
    proof (rule filter_cong [OF refl])
      fix v assume "v \<in> set (vehicles s)"
      with h have "vtype v = upper uc (vtype v)" by blast
      then show "(vtype v = upper uc t \<and> available v) = (matches_ci uc (vtype v) t \<and> available v)"
        by (simp add: matches_ci_def)
    qed
    finally show ?thesis .
  qed
  have c: "get_vehicles uc s None = vehicles s" "get_vehicles uc s (Some []) = vehicles s"
    by (simp_all add: get_vehicles_def upper_def)
  show ?thesis
    by (intro conjI impI g a b c) blast+
qed

text \<open>A mixed-case filter against an upper-case registry with one dispatched vehicle.\<close>

theorem get_vehicles_filter_witness:
  "\<forall>uc. get_vehicles uc \<lparr>vehicles = [load_vehicle scenario_vehicle, dispatched_vehicle],
       vehicle_locations = Map.empty, phone_to_location = Map.empty\<rparr> (Some ''Ambulance'')
     = [load_vehicle scenario_vehicle]
   \<and> filter (\<lambda>v. matches_ci uc (vtype v) ''Ambulance'' \<and> available v)
       [load_vehicle scenario_vehicle, dispatched_vehicle] = [load_vehicle scenario_vehicle]
   \<and> upper uc ''Ambulance'' = ''AMBULANCE''"
proof
  fix uc
  let ?s = "\<lparr>vehicles = [load_vehicle scenario_vehicle, dispatched_vehicle],
       vehicle_locations = Map.empty, phone_to_location = Map.empty\<rparr>"
  have u: "upper uc ''Ambulance'' = ''AMBULANCE''" "upper uc ''AMBULANCE'' = ''AMBULANCE''"
    "map upper_char ''Ambulance'' = ''AMBULANCE''"
    by (simp_all add: upper_def upper_char_def ascii_def)
  have t: "vtype (load_vehicle scenario_vehicle) = ''AMBULANCE''"
    "vtype dispatched_vehicle = ''AMBULANCE''"
    "available (load_vehicle scenario_vehicle)" "\<not> available dispatched_vehicle"
    by (simp_all add: dispatched_vehicle_def load_vehicle_def scenario_vehicle_def)
  have h: "\<forall>v\<in>set (vehicles ?s). vtype v = upper uc (vtype v)"
    by (simp add: t u)
  have n: "''Ambulance'' \<noteq> []" "\<forall>c\<in>set ''Ambulance''. ascii c" "upper uc ''Ambulance'' \<noteq> []"
    by (simp_all add: ascii_def u)
  from get_vehicles_filter [of uc "''Ambulance''" ?s] h n
  have "get_vehicles uc ?s (Some ''Ambulance'')
      = filter (\<lambda>v. vtype v = upper uc ''Ambulance'' \<and> available v) (vehicles ?s)"
    and "get_vehicles uc ?s (Some ''Ambulance'')
      = filter (\<lambda>v. vtype v = map upper_char ''Ambulance'' \<and> available v) (vehicles ?s)"
    and "get_vehicles uc ?s (Some ''Ambulance'')
      = filter (\<lambda>v. matches_ci uc (vtype v) ''Ambulance'' \<and> available v) (vehicles ?s)"
    by blast+
  then show "get_vehicles uc ?s (Some ''Ambulance'') = [load_vehicle scenario_vehicle]
   \<and> filter (\<lambda>v. matches_ci uc (vtype v) ''Ambulance'' \<and> available v)
       [load_vehicle scenario_vehicle, dispatched_vehicle] = [load_vehicle scenario_vehicle]
   \<and> upper uc ''Ambulance'' = ''AMBULANCE''"
    by (simp add: t u)
qed

section \<open>Batch summaries\<close>



lemma summary_of_id [simp]: "vehicleId (summary_of v e) = vid v"
  by (simp add: summary_of_def)




end
